theory Spec2Isabelle
  imports Complex_Main
begin

section \<open>utp.py: capacitance tables of unshielded twisted pairs\<close>

text \<open>
  The script holds three static tables and one stranding factor, walks the tables in three
  nested \<^verbatim>\<open>for\<close> loops and prints one line per combination.

  Python's \<^verbatim>\<open>float\<close> is modelled by \<^typ>\<open>real\<close>: every arithmetic operation is the
  exact one, so rounding of IEEE doubles is not part of the model. On the numbers of the
  tables the two agree up to that rounding. Where a claim speaks of numbers outside the
  tables, the two formulas are given a second time with the rounding of doubles after
  every operation, and the claim is measured against those. What can raise in the
  source is a branch of the model: \<^verbatim>\<open>/\<close> raises \<^verbatim>\<open>ZeroDivisionError\<close> on a zero divisor,
  \<^verbatim>\<open>math.log\<close> and \<^verbatim>\<open>math.log10\<close> raise \<^verbatim>\<open>ValueError\<close> outside the positive reals, and
  the \<^verbatim>\<open>%\<close> operator raises \<^verbatim>\<open>TypeError\<close> or \<^verbatim>\<open>ValueError\<close> on a format string that does
  not fit its arguments.
\<close>

subsection \<open>Data\<close>

text \<open>A table row is a Python tuple: \<^verbatim>\<open>(name, constant)\<close> and \<^verbatim>\<open>(gauge, stranding, diameter)\<close>.\<close>

type_synonym material = "string \<times> real"
type_synonym conductor = "string \<times> string \<times> real"

datatype py_error = ValueError | ZeroDivisionError | TypeError

text \<open>\<^verbatim>\<open>STRANDING_FACTOR = 0.939 # 7 strands\<close>; the other five values are commented out.\<close>

definition STRANDING_FACTOR :: real where
  "STRANDING_FACTOR = 0.939"

definition DIELECTRIC_LIST :: "material list" where
  "DIELECTRIC_LIST =
    [(''ECTFE/Halar'', 2.60),
     (''PFA/Teflon'', 2.15),
     (''PVC'', 5.00),
     (''PVC(Semi-rigid)'', 3.60),
     (''PVDF/Kynar/SOLEF'', 7.70),
     (''Polyethylene'', 2.29),
     (''Polypropylene'', 2.25),
     (''Polyurethane'', 6.50),
     (''Rubber(butyl)'', 4.0),
     (''Rubber(natural)'', 5.0),
     (''Rubber(SBR)'', 4.0),
     (''Rubber(silicone)'', 3.1),
     (''TFE/Teflon'', 2.1),
     (''TPE'', 5.0),
     (''Teflon'', 2.10),
     (''Tefzel'', 2.6)]"

definition CONDUCTOR_LIST :: "conductor list" where
  "CONDUCTOR_LIST =
    [(''AWG30'', ''7/38'', 0.012),
     (''AWG28'', ''7/36'', 0.015),
     (''AWG26'', ''7/34'', 0.019),
     (''AWG24'', ''7/32'', 0.024),
     (''AWG22'', ''7/30'', 0.030)]"

definition INSULATION_THICKNESS_LIST :: "real list" where
  "INSULATION_THICKNESS_LIST =
    [0.006, 0.010, 0.011, 0.012, 0.015, 0.017, 0.018, 0.019, 0.030, 0.032, 0.045, 0.060]"

definition MM_PER_FT :: real where
  "MM_PER_FT = 25.4 * 12.0"

subsection \<open>Arithmetic that can raise\<close>

definition py_div :: "real \<Rightarrow> real \<Rightarrow> py_error + real" where
  "py_div a b = (if b = 0 then Inl ZeroDivisionError else Inr (a / b))"

definition math_log10 :: "real \<Rightarrow> py_error + real" where
  "math_log10 x = (if x \<le> 0 then Inl ValueError else Inr (log 10 x))"

definition math_log :: "real \<Rightarrow> py_error + real" where
  "math_log x = (if x \<le> 0 then Inl ValueError else Inr (ln x))"

subsection \<open>The loop body's local variables\<close>

text \<open>
  The stranding factor is a module-level constant of the source; the functions take it as
  their first argument so that the other selectable values can be compared with the
  active one. \<^verbatim>\<open>material[1]\<close> is \<open>snd material\<close>, \<^verbatim>\<open>conductor[2]\<close> is
  \<open>snd (snd conductor)\<close>. Operands are evaluated left to right: the inner quotient, then
  the logarithm, then the outer quotient.
\<close>

definition capacitance :: "real \<Rightarrow> material \<Rightarrow> conductor \<Rightarrow> real \<Rightarrow> py_error + real" where
  "capacitance sf material conductor thickness =
     (case py_div (1.3 * ((2.0 * thickness) + snd (snd conductor)))
                  (sf * snd (snd conductor)) of
        Inl e \<Rightarrow> Inl e
      | Inr q \<Rightarrow>
          (case math_log10 q of
             Inl e \<Rightarrow> Inl e
           | Inr l \<Rightarrow> py_div (2.2 * snd material) l))"

text \<open>
  \<^verbatim>\<open>( 12 * 0.7065 ) / math.log( ... ) * material[1]\<close>: \<^verbatim>\<open>/\<close> and \<^verbatim>\<open>*\<close> associate to
  the left, so the quotient is taken first and then multiplied.
\<close>

definition capacitance2 :: "real \<Rightarrow> material \<Rightarrow> conductor \<Rightarrow> real \<Rightarrow> py_error + real" where
  "capacitance2 sf material conductor thickness =
     (case py_div (2 * ((2.0 * thickness) + snd (snd conductor)))
                  (sf * snd (snd conductor)) of
        Inl e \<Rightarrow> Inl e
      | Inr q \<Rightarrow>
          (case math_log q of
             Inl e \<Rightarrow> Inl e
           | Inr l \<Rightarrow>
               (case py_div (12 * 0.7065) l of
                  Inl e \<Rightarrow> Inl e
                | Inr r \<Rightarrow> Inr (r * snd material))))"

text \<open>\<^verbatim>\<open>capacitance_mm = capacitance / MM_PER_FT\<close>, and the same for \<^verbatim>\<open>capacitance2_mm\<close>.\<close>

definition capacitance_mm :: "real \<Rightarrow> py_error + real" where
  "capacitance_mm cap = py_div cap MM_PER_FT"

subsection \<open>The \<^verbatim>\<open>%\<close> operator on strings\<close>

text \<open>
  The fragment of printf-style formatting that the script uses: literal text, \<^verbatim>\<open>%%\<close>,
  \<^verbatim>\<open>%s\<close> on a string and \<^verbatim>\<open>%f\<close> on a float, each with an optional width and an optional
  precision. \<open>Unmodelled\<close> is not a Python exception: it marks what the runtime does and
  this model leaves out (flags, the other conversions, \<^verbatim>\<open>str()\<close> of a float).
\<close>

datatype py_val = PyStr string | PyFloat real

datatype failure = Raises py_error | Unmodelled

text \<open>Correct rounding of the digits: to nearest, ties to even, as the C library does.\<close>

definition round_half_even :: "real \<Rightarrow> int" where
  "round_half_even y =
     (let f = \<lfloor>y\<rfloor> in
        if y - of_int f < 1 / 2 then f
        else if 1 / 2 < y - of_int f then f + 1
        else if even f then f else f + 1)"

definition digit_char :: "nat \<Rightarrow> char" where
  "digit_char d = ''0123456789'' ! (d mod 10)"

fun digits :: "nat \<Rightarrow> string" where
  "digits n = (if n < 10 then [digit_char n] else digits (n div 10) @ [digit_char (n mod 10)])"

declare digits.simps [simp del]

text \<open>\<^verbatim>\<open>%.pf\<close>: the sign, the integer part, and \<open>p\<close> digits after the point.\<close>

definition format_f :: "nat \<Rightarrow> real \<Rightarrow> string" where
  "format_f p x =
     (let n = nat (round_half_even (\<bar>x\<bar> * 10 ^ p));
          fd = digits (n mod 10 ^ p)
      in (if x < 0 then ''-'' else []) @ digits (n div 10 ^ p) @
         (if p = 0 then [] else ''.'' @ replicate (p - length fd) (CHR ''0'') @ fd))"

text \<open>A field narrower than its width is filled with spaces on the left.\<close>

definition pad :: "nat \<Rightarrow> string \<Rightarrow> string" where
  "pad w s = replicate (w - length s) (CHR '' '') @ s"

definition is_digit :: "char \<Rightarrow> bool" where
  "is_digit c = (c \<in> set ''0123456789'')"

definition digit_val :: "char \<Rightarrow> nat" where
  "digit_val c = of_char c - 48"

text \<open>One conversion: the text it produces and the arguments that remain.\<close>

definition convert ::
  "nat \<Rightarrow> nat option \<Rightarrow> char \<Rightarrow> py_val list \<Rightarrow> failure + (string \<times> py_val list)" where
  "convert w p c args =
     (if c = CHR ''%'' then Inr (''%'', args)
      else if c = CHR ''s'' then
        (case args of
           [] \<Rightarrow> Inl (Raises TypeError)
         | PyStr s # rest \<Rightarrow> Inr (pad w (case p of None \<Rightarrow> s | Some n \<Rightarrow> take n s), rest)
         | PyFloat x # rest \<Rightarrow> Inl Unmodelled)
      else if c = CHR ''f'' then
        (case args of
           [] \<Rightarrow> Inl (Raises TypeError)
         | PyStr s # rest \<Rightarrow> Inl (Raises TypeError)
         | PyFloat x # rest \<Rightarrow> Inr (pad w (format_f (case p of None \<Rightarrow> 6 | Some n \<Rightarrow> n) x), rest))
      else Inl Unmodelled)"

datatype fmt_state = Text | Width nat | Prec nat nat

text \<open>
  The scanner reads the format left to right. A format that ends inside a conversion is a
  \<^verbatim>\<open>ValueError\<close>, arguments left over at the end are a \<^verbatim>\<open>TypeError\<close>.
\<close>

fun scan :: "fmt_state \<Rightarrow> string \<Rightarrow> py_val list \<Rightarrow> failure + string" where
  "scan Text [] args = (if args = [] then Inr [] else Inl (Raises TypeError))"
| "scan Text (c # cs) args =
     (if c = CHR ''%'' then scan (Width 0) cs args
      else (case scan Text cs args of Inl e \<Rightarrow> Inl e | Inr r \<Rightarrow> Inr (c # r)))"
| "scan (Width w) [] args = Inl (Raises ValueError)"
| "scan (Width w) (c # cs) args =
     (if is_digit c then scan (Width (10 * w + digit_val c)) cs args
      else if c = CHR ''.'' then scan (Prec w 0) cs args
      else (case convert w None c args of
              Inl e \<Rightarrow> Inl e
            | Inr (s, rest) \<Rightarrow>
                (case scan Text cs rest of Inl e \<Rightarrow> Inl e | Inr r \<Rightarrow> Inr (s @ r))))"
| "scan (Prec w p) [] args = Inl (Raises ValueError)"
| "scan (Prec w p) (c # cs) args =
     (if is_digit c then scan (Prec w (10 * p + digit_val c)) cs args
      else (case convert w (Some p) c args of
              Inl e \<Rightarrow> Inl e
            | Inr (s, rest) \<Rightarrow>
                (case scan Text cs rest of Inl e \<Rightarrow> Inl e | Inr r \<Rightarrow> Inr (s @ r))))"

definition py_format :: "string \<Rightarrow> py_val list \<Rightarrow> failure + string" where
  "py_format fmt args = scan Text fmt args"

subsection \<open>The loops and the process\<close>

text \<open>
  \<^verbatim>\<open>capacitance\<close>, \<^verbatim>\<open>capacitance_mm\<close>, \<^verbatim>\<open>capacitance2\<close> and \<^verbatim>\<open>capacitance2_mm\<close> are computed
  in this order, and then the argument tuple of \<^verbatim>\<open>%\<close> is built.
\<close>

definition line_args :: "real \<Rightarrow> material \<Rightarrow> conductor \<Rightarrow> real \<Rightarrow> py_error + py_val list" where
  "line_args sf material conductor thickness =
     (case capacitance sf material conductor thickness of
        Inl e \<Rightarrow> Inl e
      | Inr cap \<Rightarrow>
     (case capacitance_mm cap of
        Inl e \<Rightarrow> Inl e
      | Inr cap_mm \<Rightarrow>
     (case capacitance2 sf material conductor thickness of
        Inl e \<Rightarrow> Inl e
      | Inr cap2 \<Rightarrow>
     (case capacitance_mm cap2 of
        Inl e \<Rightarrow> Inl e
      | Inr cap2_mm \<Rightarrow>
          Inr [PyStr (fst conductor), PyFloat thickness, PyStr (fst material),
               PyFloat cap, PyFloat cap_mm, PyFloat cap2, PyFloat cap2_mm]))))"

text \<open>The two adjacent string literals of the \<^verbatim>\<open>print\<close> call are one format string.\<close>

definition FORMAT :: string where
  "FORMAT = ''%s %1.3f inch thick %s = %5.2f pf/ft %5.4f pf/mm '' @
            ''(General Cable) %5.2f pf/ft %5.4f pf/mm (Howard Johnson)''"

text \<open>One pass through the innermost loop body: the line that \<^verbatim>\<open>print\<close> writes.\<close>

definition body :: "real \<Rightarrow> material \<Rightarrow> conductor \<Rightarrow> real \<Rightarrow> failure + string" where
  "body sf material conductor thickness =
     (case line_args sf material conductor thickness of
        Inl e \<Rightarrow> Inl (Raises e)
      | Inr args \<Rightarrow> py_format FORMAT args)"

text \<open>
  Standard output is the list of lines written so far. A loop either runs to its end or
  stops at the first exception, with the lines written before it.
\<close>

datatype run = Completed "string list" | Raised failure "string list"

fun thickness_loop :: "real \<Rightarrow> material \<Rightarrow> conductor \<Rightarrow> real list \<Rightarrow> string list \<Rightarrow> run" where
  "thickness_loop sf material conductor [] out = Completed out"
| "thickness_loop sf material conductor (thickness # ts) out =
     (case body sf material conductor thickness of
        Inl e \<Rightarrow> Raised e out
      | Inr l \<Rightarrow> thickness_loop sf material conductor ts (out @ [l]))"

fun conductor_loop :: "real \<Rightarrow> material \<Rightarrow> conductor list \<Rightarrow> string list \<Rightarrow> run" where
  "conductor_loop sf material [] out = Completed out"
| "conductor_loop sf material (conductor # cs) out =
     (case thickness_loop sf material conductor INSULATION_THICKNESS_LIST out of
        Raised e out' \<Rightarrow> Raised e out'
      | Completed out' \<Rightarrow> conductor_loop sf material cs out')"

fun material_loop :: "real \<Rightarrow> material list \<Rightarrow> string list \<Rightarrow> run" where
  "material_loop sf [] out = Completed out"
| "material_loop sf (material # ms) out =
     (case conductor_loop sf material CONDUCTOR_LIST out of
        Raised e out' \<Rightarrow> Raised e out'
      | Completed out' \<Rightarrow> material_loop sf ms out')"

text \<open>
  The process ends by \<^verbatim>\<open>sys.exit(exit_code)\<close> with \<^verbatim>\<open>exit_code = 0\<close>, or by an exception
  that nothing catches: the interpreter then prints a traceback and leaves with status 1.
\<close>

datatype process = Exit int "string list" | Uncaught failure "string list"

definition exit_code :: int where
  "exit_code = 0"

definition main :: "real \<Rightarrow> process" where
  "main sf =
     (case material_loop sf DIELECTRIC_LIST [] of
        Raised e out \<Rightarrow> Uncaught e out
      | Completed out \<Rightarrow> Exit exit_code out)"

fun status :: "process \<Rightarrow> int" where
  "status (Exit n out) = n"
| "status (Uncaught e out) = 1"

fun stdout :: "process \<Rightarrow> string list" where
  "stdout (Exit n out) = out"
| "stdout (Uncaught e out) = out"

text \<open>The script as it stands, with the active stranding factor.\<close>

definition utp :: process where
  "utp = main STRANDING_FACTOR"

subsection \<open>The same two lines in double precision\<close>

text \<open>
  A Python \<^verbatim>\<open>float\<close> is an IEEE binary64 number with 53 significant bits, and every
  operation returns the representable number nearest to the exact result, ties to even.
  \<open>fl\<close> is that rounding on the reals, with an unbounded exponent range: overflow and
  subnormal numbers are left out, which is enough between \<open>10\<^sup>-\<^sup>1\<^sup>8\<close> and 100, where it is
  used. The functions below are lines 112 to 114 and 117 to 119 of the source once more,
  with the rounding after every operation and every decimal literal rounded. \<^verbatim>\<open>2.0\<close>,
  \<^verbatim>\<open>2\<close> and \<^verbatim>\<open>12\<close> are exact. Their arguments are doubles: a table entry \<open>x\<close> is passed as
  \<open>fl x\<close>. \<^verbatim>\<open>math.log10\<close> and \<^verbatim>\<open>math.log\<close> are taken as correctly rounded; the C library
  may differ from that in the last bit.
\<close>

definition fl :: "real \<Rightarrow> real" where
  "fl x =
     (if x = 0 then 0
      else let u = 2 powr (of_int (\<lfloor>log 2 \<bar>x\<bar>\<rfloor> - 52))
           in of_int (round_half_even (x / u)) * u)"

definition py_div_fl :: "real \<Rightarrow> real \<Rightarrow> py_error + real" where
  "py_div_fl a b = (if b = 0 then Inl ZeroDivisionError else Inr (fl (a / b)))"

definition math_log10_fl :: "real \<Rightarrow> py_error + real" where
  "math_log10_fl x = (if x \<le> 0 then Inl ValueError else Inr (fl (log 10 x)))"

definition math_log_fl :: "real \<Rightarrow> py_error + real" where
  "math_log_fl x = (if x \<le> 0 then Inl ValueError else Inr (fl (ln x)))"

definition capacitance_fl :: "real \<Rightarrow> material \<Rightarrow> conductor \<Rightarrow> real \<Rightarrow> py_error + real" where
  "capacitance_fl sf material conductor thickness =
     (case py_div_fl (fl (fl 1.3 * fl (fl (2.0 * thickness) + snd (snd conductor))))
                     (fl (sf * snd (snd conductor))) of
        Inl e \<Rightarrow> Inl e
      | Inr q \<Rightarrow>
          (case math_log10_fl q of
             Inl e \<Rightarrow> Inl e
           | Inr l \<Rightarrow> py_div_fl (fl (fl 2.2 * snd material)) l))"

definition capacitance2_fl :: "real \<Rightarrow> material \<Rightarrow> conductor \<Rightarrow> real \<Rightarrow> py_error + real" where
  "capacitance2_fl sf material conductor thickness =
     (case py_div_fl (fl (2 * fl (fl (2.0 * thickness) + snd (snd conductor))))
                     (fl (sf * snd (snd conductor))) of
        Inl e \<Rightarrow> Inl e
      | Inr q \<Rightarrow>
          (case math_log_fl q of
             Inl e \<Rightarrow> Inl e
           | Inr l \<Rightarrow>
               (case py_div_fl (fl (12 * fl 0.7065)) l of
                  Inl e \<Rightarrow> Inl e
                | Inr r \<Rightarrow> Inr (fl (r * snd material)))))"

subsection \<open>The formulas as the specification writes them\<close>

text \<open>
  \<open>cap_ft = (2.2 \<times> d) / log10((1.3 \<times> (2\<times>t + D)) / (k \<times> D))\<close> and
  \<open>cap2_ft = ((12 \<times> 0.7065) / ln((2 \<times> (2\<times>t + D)) / (k \<times> D))) \<times> d\<close>.
\<close>

definition cap_ft :: "real \<Rightarrow> real \<Rightarrow> real \<Rightarrow> real \<Rightarrow> real" where
  "cap_ft k d D t = (2.2 * d) / log 10 ((1.3 * (2 * t + D)) / (k * D))"

definition cap2_ft :: "real \<Rightarrow> real \<Rightarrow> real \<Rightarrow> real \<Rightarrow> real" where
  "cap2_ft k d D t = ((12 * 0.7065) / ln ((2 * (2 * t + D)) / (k * D))) * d"

text \<open>
  The output contract: gauge label, thickness with three decimals, material name, the
  General Cable values with two and four decimals, the Howard Johnson values likewise.
\<close>

definition spec_line :: "real \<Rightarrow> material \<Rightarrow> conductor \<Rightarrow> real \<Rightarrow> string" where
  "spec_line k m c t =
     fst c @ '' '' @ pad 1 (format_f 3 t) @ '' inch thick '' @ fst m @ '' = '' @
     pad 5 (format_f 2 (cap_ft k (snd m) (snd (snd c)) t)) @ '' pf/ft '' @
     pad 5 (format_f 4 (cap_ft k (snd m) (snd (snd c)) t / 304.8)) @ '' pf/mm '' @
     ''(General Cable) '' @
     pad 5 (format_f 2 (cap2_ft k (snd m) (snd (snd c)) t)) @ '' pf/ft '' @
     pad 5 (format_f 4 (cap2_ft k (snd m) (snd (snd c)) t / 304.8)) @ '' pf/mm '' @
     ''(Howard Johnson)''"

text \<open>The Cartesian product in table order: material, then conductor, then thickness.\<close>

definition spec_output :: "real \<Rightarrow> string list" where
  "spec_output k =
     concat (map (\<lambda>m. concat (map (\<lambda>c. map (\<lambda>t. spec_line k m c t)
       INSULATION_THICKNESS_LIST) CONDUCTOR_LIST)) DIELECTRIC_LIST)"

section \<open>Properties\<close>

subsection \<open>The tables hold positive numbers\<close>

lemma dielectric_pos: "m \<in> set DIELECTRIC_LIST \<Longrightarrow> 0 < snd m"
  by (auto simp: DIELECTRIC_LIST_def)

lemma diameter_pos: "c \<in> set CONDUCTOR_LIST \<Longrightarrow> 0 < snd (snd c)"
  by (auto simp: CONDUCTOR_LIST_def)

lemma thickness_pos: "t \<in> set INSULATION_THICKNESS_LIST \<Longrightarrow> 0 < t"
  by (auto simp: INSULATION_THICKNESS_LIST_def)

subsection \<open>The arguments of the logarithms\<close>

lemma ratio_gt:
  fixes a k D t :: real
  assumes "1 \<le> a" "0 < k" "k \<le> 1" "0 < D" "0 < t"
  shows "a < (a * (2 * t + D)) / (k * D)"
proof -
  have kD: "0 < k * D" using assms by simp
  have "k * D \<le> D" using assms by (simp add: mult_left_le_one_le)
  also have "D < 2 * t + D" using assms by simp
  finally have "a * (k * D) < a * (2 * t + D)" using assms by simp
  then show ?thesis using kD by (simp add: pos_less_divide_eq mult.commute mult.left_commute)
qed

lemma arg10_gt_1:
  fixes k D t :: real
  assumes "0 < k" "k \<le> 1" "0 < D" "0 < t"
  shows "1 < (1.3 * (2 * t + D)) / (k * D)"
proof -
  have "(1::real) < 1.3" by simp
  also have "(1.3::real) < (1.3 * (2 * t + D)) / (k * D)"
    using assms by (intro ratio_gt) simp_all
  finally show ?thesis .
qed

lemma arge_gt_1:
  fixes k D t :: real
  assumes "0 < k" "k \<le> 1" "0 < D" "0 < t"
  shows "1 < (2 * (2 * t + D)) / (k * D)"
proof -
  have "(1::real) < 2" by simp
  also have "(2::real) < (2 * (2 * t + D)) / (k * D)"
    using assms by (intro ratio_gt) simp_all
  finally show ?thesis .
qed

subsection \<open>The code computes the two formulas\<close>

lemma capacitance_eq:
  assumes "0 < k" "k \<le> 1" "0 < snd (snd c)" "0 < t"
  shows "capacitance k m c t = Inr (cap_ft k (snd m) (snd (snd c)) t)"
proof -
  define q where "q = (1.3 * (2 * t + snd (snd c))) / (k * snd (snd c))"
  have q1: "1 < q"
    unfolding q_def using assms by (rule arg10_gt_1)
  have kD: "k * snd (snd c) \<noteq> 0" using assms by simp
  have s1: "py_div (1.3 * ((2.0 * t) + snd (snd c))) (k * snd (snd c)) = Inr q"
    unfolding py_div_def q_def using kD by simp
  have s2: "math_log10 q = Inr (log 10 q)"
    unfolding math_log10_def using q1 by simp
  have "0 < log 10 q" using q1 by simp
  then have s3: "py_div (2.2 * snd m) (log 10 q) = Inr ((2.2 * snd m) / log 10 q)"
    unfolding py_div_def by simp
  have "capacitance k m c t = Inr ((2.2 * snd m) / log 10 q)"
    unfolding capacitance_def by (simp only: s1 s2 s3 sum.case)
  then show ?thesis by (simp only: cap_ft_def q_def)
qed

lemma capacitance2_eq:
  assumes "0 < k" "k \<le> 1" "0 < snd (snd c)" "0 < t"
  shows "capacitance2 k m c t = Inr (cap2_ft k (snd m) (snd (snd c)) t)"
proof -
  define q where "q = (2 * (2 * t + snd (snd c))) / (k * snd (snd c))"
  have q1: "1 < q"
    unfolding q_def using assms by (rule arge_gt_1)
  have kD: "k * snd (snd c) \<noteq> 0" using assms by simp
  have s1: "py_div (2 * ((2.0 * t) + snd (snd c))) (k * snd (snd c)) = Inr q"
    unfolding py_div_def q_def using kD by simp
  have s2: "math_log q = Inr (ln q)"
    unfolding math_log_def using q1 by simp
  have "0 < ln q" using q1 by (rule ln_gt_zero)
  then have s3: "py_div (12 * 0.7065) (ln q) = Inr ((12 * 0.7065) / ln q)"
    unfolding py_div_def by simp
  have "capacitance2 k m c t = Inr (((12 * 0.7065) / ln q) * snd m)"
    unfolding capacitance2_def by (simp only: s1 s2 s3 sum.case)
  then show ?thesis by (simp only: cap2_ft_def q_def)
qed

subsection \<open>Formatting one line\<close>

lemma pad_0: "pad 0 s = s"
  by (simp add: pad_def)

lemma digit_vals:
  "digit_val CHR ''1'' = 1" "digit_val CHR ''2'' = 2" "digit_val CHR ''3'' = 3"
  "digit_val CHR ''4'' = 4" "digit_val CHR ''5'' = 5"
  by (simp_all add: digit_val_def)

lemma format_line:
  "py_format FORMAT [PyStr a, PyFloat b, PyStr c, PyFloat d, PyFloat e, PyFloat f, PyFloat g] =
     Inr (a @ '' '' @ pad 1 (format_f 3 b) @ '' inch thick '' @ c @ '' = '' @
          pad 5 (format_f 2 d) @ '' pf/ft '' @ pad 5 (format_f 4 e) @ '' pf/mm '' @
          ''(General Cable) '' @
          pad 5 (format_f 2 f) @ '' pf/ft '' @ pad 5 (format_f 4 g) @ '' pf/mm '' @
          ''(Howard Johnson)'')"
  by (simp add: py_format_def FORMAT_def convert_def is_digit_def digit_vals pad_0 numeral_2_eq_2 [symmetric])

lemma MM_PER_FT_eq: "MM_PER_FT = 304.8"
  by (simp add: MM_PER_FT_def)

lemma capacitance_mm_eq: "capacitance_mm x = Inr (x / 304.8)"
  by (simp add: capacitance_mm_def py_div_def MM_PER_FT_def)

lemma line_args_eq:
  assumes "0 < k" "k \<le> 1" "0 < snd (snd c)" "0 < t"
  shows "line_args k m c t =
     Inr [PyStr (fst c), PyFloat t, PyStr (fst m),
          PyFloat (cap_ft k (snd m) (snd (snd c)) t),
          PyFloat (cap_ft k (snd m) (snd (snd c)) t / 304.8),
          PyFloat (cap2_ft k (snd m) (snd (snd c)) t),
          PyFloat (cap2_ft k (snd m) (snd (snd c)) t / 304.8)]"
  unfolding line_args_def
  by (simp only: capacitance_eq [OF assms] capacitance2_eq [OF assms] capacitance_mm_eq sum.case)

lemma body_eq:
  assumes "0 < k" "k \<le> 1" "0 < snd (snd c)" "0 < t"
  shows "body k m c t = Inr (spec_line k m c t)"
  unfolding body_def spec_line_def
  by (simp only: line_args_eq [OF assms] sum.case format_line)

subsection \<open>The loops run to their end\<close>

lemma thickness_loop_ok:
  assumes "\<forall>t \<in> set ts. body k m c t = Inr (f t)"
  shows "thickness_loop k m c ts out = Completed (out @ map f ts)"
  using assms by (induction ts arbitrary: out) simp_all

lemma conductor_loop_ok:
  assumes "\<forall>c \<in> set cs. \<forall>out. thickness_loop k m c INSULATION_THICKNESS_LIST out = Completed (out @ g c)"
  shows "conductor_loop k m cs out = Completed (out @ concat (map g cs))"
  using assms by (induction cs arbitrary: out) simp_all

lemma material_loop_ok:
  assumes "\<forall>m \<in> set ms. \<forall>out. conductor_loop k m CONDUCTOR_LIST out = Completed (out @ h m)"
  shows "material_loop k ms out = Completed (out @ concat (map h ms))"
  using assms by (induction ms arbitrary: out) simp_all

lemma material_loop_eq:
  assumes k: "0 < k" "k \<le> 1"
  shows "material_loop k DIELECTRIC_LIST [] = Completed (spec_output k)"
proof -
  have t: "thickness_loop k m c INSULATION_THICKNESS_LIST out =
             Completed (out @ map (\<lambda>t. spec_line k m c t) INSULATION_THICKNESS_LIST)"
    if "c \<in> set CONDUCTOR_LIST" for m c out
    by (rule thickness_loop_ok) (simp add: body_eq k diameter_pos that thickness_pos)
  have c: "conductor_loop k m CONDUCTOR_LIST out =
             Completed (out @ concat (map (\<lambda>c. map (\<lambda>t. spec_line k m c t)
               INSULATION_THICKNESS_LIST) CONDUCTOR_LIST))" for m out
    by (rule conductor_loop_ok) (simp add: t)
  have "material_loop k DIELECTRIC_LIST [] = Completed ([] @ spec_output k)"
    unfolding spec_output_def by (rule material_loop_ok) (simp add: c)
  then show ?thesis by simp
qed

lemma main_eq:
  assumes "0 < k" "k \<le> 1"
  shows "main k = Exit 0 (spec_output k)"
  by (simp add: main_def material_loop_eq [OF assms] exit_code_def)

lemma length_spec_output: "length (spec_output k) = 960"
  by (simp add: spec_output_def length_concat comp_def sum_list_triv DIELECTRIC_LIST_def CONDUCTOR_LIST_def INSULATION_THICKNESS_LIST_def)

lemma nth_concat_map_uniform:
  assumes "\<forall>x \<in> set xs. length (f x) = n" "i < length xs" "j < n"
  shows "concat (map f xs) ! (i * n + j) = f (xs ! i) ! j"
  using assms
proof (induction xs arbitrary: i)
  case Nil
  then show ?case by simp
next
  case (Cons x xs)
  show ?case
  proof (cases i)
    case 0
    with Cons.prems show ?thesis by (simp add: nth_append)
  next
    case (Suc i')
    with Cons.prems have "concat (map f xs) ! (i' * n + j) = f (xs ! i') ! j"
      by (intro Cons.IH) simp_all
    with Suc Cons.prems show ?thesis by (simp add: nth_append add.assoc)
  qed
qed

subsection \<open>The run of the script\<close>

lemma sf_range: "0 < STRANDING_FACTOR" "STRANDING_FACTOR \<le> 1"
  by (simp_all add: STRANDING_FACTOR_def)

lemma utp_eq: "utp = Exit 0 (spec_output STRANDING_FACTOR)"
  unfolding utp_def by (rule main_eq) (rule sf_range)+

lemma table_lengths:
  "length DIELECTRIC_LIST = 16" "length CONDUCTOR_LIST = 5" "length INSULATION_THICKNESS_LIST = 12"
  by (simp_all add: DIELECTRIC_LIST_def CONDUCTOR_LIST_def INSULATION_THICKNESS_LIST_def)

lemma table_body:
  assumes "c \<in> set CONDUCTOR_LIST" "t \<in> set INSULATION_THICKNESS_LIST"
  shows "body STRANDING_FACTOR m c t = Inr (spec_line STRANDING_FACTOR m c t)"
  using assms by (intro body_eq sf_range diameter_pos thickness_pos)

lemma spec_output_product:
  "spec_output k =
     map (\<lambda>(m, c, t). spec_line k m c t)
       (List.product DIELECTRIC_LIST (List.product CONDUCTOR_LIST INSULATION_THICKNESS_LIST))"
  by (simp add: spec_output_def List.product_concat_map map_concat comp_def)

text \<open>
  Claim C4. One run writes exactly 960 lines, which is 16 materials times 5 conductors
  times 12 thicknesses, and the lines are the results of the loop body on the elements of
  the Cartesian product of the three tables, one line for each element.
\<close>

theorem C4_line_count:
  "length (stdout utp) = 960 \<and>
   length (stdout utp) =
     length DIELECTRIC_LIST * length CONDUCTOR_LIST * length INSULATION_THICKNESS_LIST \<and>
   length DIELECTRIC_LIST = 16 \<and> length CONDUCTOR_LIST = 5 \<and>
   length INSULATION_THICKNESS_LIST = 12 \<and>
   map Inr (stdout utp) =
     map (\<lambda>(m, c, t). body STRANDING_FACTOR m c t)
       (List.product DIELECTRIC_LIST (List.product CONDUCTOR_LIST INSULATION_THICKNESS_LIST))"
proof -
  have out: "stdout utp = spec_output STRANDING_FACTOR"
    by (simp add: utp_eq)
  have len: "length (stdout utp) = 960"
    by (simp only: out length_spec_output)
  have prod: "map Inr (stdout utp) =
     map (\<lambda>(m, c, t). body STRANDING_FACTOR m c t)
       (List.product DIELECTRIC_LIST (List.product CONDUCTOR_LIST INSULATION_THICKNESS_LIST))"
    unfolding out spec_output_product by (auto simp: table_body)
  show ?thesis
    using len prod by (simp add: table_lengths)
qed

text \<open>
  Claim C9. The script terminates: every loop is a recursion over a finite table, the run
  raises nothing, and after its 960 lines the process leaves through \<^verbatim>\<open>sys.exit\<close> with
  status 0. The outcome is not an uncaught exception.
\<close>

theorem C9_exit_status:
  "utp = Exit 0 (stdout utp) \<and> status utp = 0 \<and> length (stdout utp) = 960"
  by (simp add: utp_eq length_spec_output)

subsection \<open>The order of the lines\<close>

lemma spec_output_nth:
  assumes "i < length DIELECTRIC_LIST" "j < length CONDUCTOR_LIST"
    "n < length INSULATION_THICKNESS_LIST"
  shows "spec_output k ! (i * 60 + j * 12 + n) =
           spec_line k (DIELECTRIC_LIST ! i) (CONDUCTOR_LIST ! j) (INSULATION_THICKNESS_LIST ! n)"
proof -
  let ?row = "\<lambda>m c. map (\<lambda>t. spec_line k m c t) INSULATION_THICKNESS_LIST"
  let ?grp = "\<lambda>m. concat (map (?row m) CONDUCTOR_LIST)"
  have row_len: "\<forall>c \<in> set CONDUCTOR_LIST. length (?row m c) = 12" for m
    by (simp add: table_lengths)
  have grp_len: "\<forall>m \<in> set DIELECTRIC_LIST. length (?grp m) = 60"
    by (simp add: length_concat comp_def sum_list_triv table_lengths)
  have jn: "j * 12 + n < 60"
    using assms by (simp add: table_lengths)
  have "spec_output k ! (i * 60 + (j * 12 + n)) = ?grp (DIELECTRIC_LIST ! i) ! (j * 12 + n)"
    unfolding spec_output_def using grp_len assms(1) jn by (rule nth_concat_map_uniform)
  also have "\<dots> = ?row (DIELECTRIC_LIST ! i) (CONDUCTOR_LIST ! j) ! n"
    using row_len assms(2) assms(3) [unfolded table_lengths]
    by (rule nth_concat_map_uniform)
  also have "\<dots> = spec_line k (DIELECTRIC_LIST ! i) (CONDUCTOR_LIST ! j)
                       (INSULATION_THICKNESS_LIST ! n)"
    using assms(3) by simp
  finally show ?thesis by (simp only: add.assoc)
qed


lemma tables_nonempty:
  "DIELECTRIC_LIST \<noteq> []" "CONDUCTOR_LIST \<noteq> []" "INSULATION_THICKNESS_LIST \<noteq> []"
  by (simp_all add: DIELECTRIC_LIST_def CONDUCTOR_LIST_def INSULATION_THICKNESS_LIST_def)

lemma spec_output_hd:
  "hd (spec_output k) =
     spec_line k (hd DIELECTRIC_LIST) (hd CONDUCTOR_LIST) (hd INSULATION_THICKNESS_LIST)"
proof -
  have ne: "spec_output k \<noteq> []"
    using length_spec_output [of k] by auto
  have "spec_output k ! (0 * 60 + 0 * 12 + 0) =
          spec_line k (DIELECTRIC_LIST ! 0) (CONDUCTOR_LIST ! 0) (INSULATION_THICKNESS_LIST ! 0)"
    by (rule spec_output_nth) (simp_all add: table_lengths)
  then show ?thesis
    by (simp add: hd_conv_nth ne tables_nonempty)
qed

lemma spec_output_last:
  "last (spec_output k) =
     spec_line k (last DIELECTRIC_LIST) (last CONDUCTOR_LIST) (last INSULATION_THICKNESS_LIST)"
proof -
  have ne: "spec_output k \<noteq> []"
    using length_spec_output [of k] by auto
  have "spec_output k ! (15 * 60 + 4 * 12 + 11) =
          spec_line k (DIELECTRIC_LIST ! 15) (CONDUCTOR_LIST ! 4) (INSULATION_THICKNESS_LIST ! 11)"
    by (rule spec_output_nth) (simp_all add: table_lengths)
  then show ?thesis
    by (simp add: last_conv_nth ne tables_nonempty table_lengths length_spec_output)
qed


text \<open>
  Claim C5. The lines come in the nested order of the tables: the line at position
  \<open>60 i + 12 j + n\<close> is the one that the loop body writes for material \<open>i\<close>, conductor
  \<open>j\<close> and thickness \<open>n\<close>, so the material changes slowest and the thickness fastest. The
  first line belongs to the first entry of each table and the last line to the last entry
  of each table.
\<close>

theorem C5_nested_order:
  "(i < 16 \<and> j < 5 \<and> n < 12 \<longrightarrow>
      body STRANDING_FACTOR (DIELECTRIC_LIST ! i) (CONDUCTOR_LIST ! j)
        (INSULATION_THICKNESS_LIST ! n) = Inr (stdout utp ! (i * 60 + j * 12 + n))) \<and>
   body STRANDING_FACTOR (hd DIELECTRIC_LIST) (hd CONDUCTOR_LIST)
     (hd INSULATION_THICKNESS_LIST) = Inr (hd (stdout utp)) \<and>
   body STRANDING_FACTOR (last DIELECTRIC_LIST) (last CONDUCTOR_LIST)
     (last INSULATION_THICKNESS_LIST) = Inr (last (stdout utp))"
proof (intro conjI impI)
  have out: "stdout utp = spec_output STRANDING_FACTOR"
    by (simp add: utp_eq)
  {
    assume b: "i < 16 \<and> j < 5 \<and> n < 12"
    then have c: "CONDUCTOR_LIST ! j \<in> set CONDUCTOR_LIST"
      and t: "INSULATION_THICKNESS_LIST ! n \<in> set INSULATION_THICKNESS_LIST"
      by (simp_all add: table_lengths)
    from b have "spec_output STRANDING_FACTOR ! (i * 60 + j * 12 + n) =
        spec_line STRANDING_FACTOR (DIELECTRIC_LIST ! i) (CONDUCTOR_LIST ! j)
          (INSULATION_THICKNESS_LIST ! n)"
      by (intro spec_output_nth) (simp_all add: table_lengths)
    then show "body STRANDING_FACTOR (DIELECTRIC_LIST ! i) (CONDUCTOR_LIST ! j)
        (INSULATION_THICKNESS_LIST ! n) = Inr (stdout utp ! (i * 60 + j * 12 + n))"
      by (simp only: out table_body [OF c t])
  }
  have c: "hd CONDUCTOR_LIST \<in> set CONDUCTOR_LIST"
    and t: "hd INSULATION_THICKNESS_LIST \<in> set INSULATION_THICKNESS_LIST"
    by (simp_all add: tables_nonempty)
  show "body STRANDING_FACTOR (hd DIELECTRIC_LIST) (hd CONDUCTOR_LIST)
     (hd INSULATION_THICKNESS_LIST) = Inr (hd (stdout utp))"
    by (simp only: out table_body [OF c t] spec_output_hd)
  have c: "last CONDUCTOR_LIST \<in> set CONDUCTOR_LIST"
    and t: "last INSULATION_THICKNESS_LIST \<in> set INSULATION_THICKNESS_LIST"
    by (simp_all add: tables_nonempty)
  show "body STRANDING_FACTOR (last DIELECTRIC_LIST) (last CONDUCTOR_LIST)
     (last INSULATION_THICKNESS_LIST) = Inr (last (stdout utp))"
    by (simp only: out table_body [OF c t] spec_output_last)
qed


lemma table_ends:
  "DIELECTRIC_LIST ! 15 = (''Tefzel'', 2.6)"
  "CONDUCTOR_LIST ! 4 = (''AWG22'', ''7/30'', 0.030)"
  "INSULATION_THICKNESS_LIST ! 11 = 0.060"
  "hd DIELECTRIC_LIST = (''ECTFE/Halar'', 2.60)"
  "hd CONDUCTOR_LIST = (''AWG30'', ''7/38'', 0.012)"
  "hd INSULATION_THICKNESS_LIST = 0.006"
  by (simp_all add: DIELECTRIC_LIST_def CONDUCTOR_LIST_def INSULATION_THICKNESS_LIST_def)

text \<open>The last position, 959, and the first line, at concrete table entries.\<close>

theorem C5_nested_order_witness:
  "(15::nat) < 16 \<and> (4::nat) < 5 \<and> (11::nat) < 12 \<and>
   body STRANDING_FACTOR (''Tefzel'', 2.6) (''AWG22'', ''7/30'', 0.030) 0.060 =
     Inr (stdout utp ! 959) \<and>
   body STRANDING_FACTOR (''ECTFE/Halar'', 2.60) (''AWG30'', ''7/38'', 0.012) 0.006 =
     Inr (hd (stdout utp))"
  using C5_nested_order [of 15 4 11]
  by (simp add: table_ends)

subsection \<open>The values that are printed\<close>

lemma log_args:
  assumes "0 < k" "k \<le> 1" "0 < D" "0 < t"
  shows "0 < log 10 ((1.3 * (2 * t + D)) / (k * D))"
    and "0 < ln ((2 * (2 * t + D)) / (k * D))"
proof -
  have "1 < (1.3 * (2 * t + D)) / (k * D)" using assms by (rule arg10_gt_1)
  then show "0 < log 10 ((1.3 * (2 * t + D)) / (k * D))" by simp
  have "1 < (2 * (2 * t + D)) / (k * D)" using assms by (rule arge_gt_1)
  then show "0 < ln ((2 * (2 * t + D)) / (k * D))" by (rule ln_gt_zero)
qed

lemma cap_ft_pos:
  assumes "0 < k" "k \<le> 1" "0 < d" "0 < D" "0 < t"
  shows "0 < cap_ft k d D t"
proof -
  have "0 < log 10 ((1.3 * (2 * t + D)) / (k * D))"
    using assms(1,2,4,5) by (rule log_args)
  moreover have "0 < 2.2 * d" using assms by simp
  ultimately show ?thesis unfolding cap_ft_def by (rule divide_pos_pos [rotated])
qed

lemma cap2_ft_pos:
  assumes "0 < k" "k \<le> 1" "0 < d" "0 < D" "0 < t"
  shows "0 < cap2_ft k d D t"
proof -
  have "0 < ln ((2 * (2 * t + D)) / (k * D))"
    using assms(1,2,4,5) by (rule log_args)
  then have "0 < (12 * 0.7065) / ln ((2 * (2 * t + D)) / (k * D))" by simp
  then show ?thesis unfolding cap2_ft_def using assms(3) by (rule mult_pos_pos)
qed

lemma ln_10_gt_1: "1 < ln (10::real)"
proof -
  have "exp 1 < (10::real)" using exp_le by linarith
  then have "ln (exp 1) < ln (10::real)" by (subst ln_less_cancel_iff) simp_all
  then show ?thesis by simp
qed

text \<open>
  Claim C1. For every material, conductor and thickness of the tables, the General Cable
  value that the loop body computes, which is the first float of the four capacitance
  arguments of \<^verbatim>\<open>print\<close> (index 3 of the tuple), is
  \<open>(2.2 d) / log10((1.3 (2 t + D)) / (0.939 D))\<close>, and no exception is raised on the way.
  For ECTFE/Halar, AWG30 and thickness 0.006 it is
  \<open>(2.2 \<times> 2.60) / log10((1.3 \<times> (0.012 + 0.012)) / (0.939 \<times> 0.012))\<close>.
\<close>

theorem C1_general_cable:
  "(m \<in> set DIELECTRIC_LIST \<and> c \<in> set CONDUCTOR_LIST \<and> t \<in> set INSULATION_THICKNESS_LIST \<longrightarrow>
      capacitance STRANDING_FACTOR m c t =
        Inr ((2.2 * snd m) / log 10 ((1.3 * (2 * t + snd (snd c))) / (0.939 * snd (snd c)))) \<and>
      (\<exists>args. line_args STRANDING_FACTOR m c t = Inr args \<and>
         args ! 3 =
           PyFloat ((2.2 * snd m) / log 10 ((1.3 * (2 * t + snd (snd c))) / (0.939 * snd (snd c)))))) \<and>
   capacitance STRANDING_FACTOR (''ECTFE/Halar'', 2.60) (''AWG30'', ''7/38'', 0.012) 0.006 =
     Inr ((2.2 * 2.60) / log 10 ((1.3 * (0.012 + 0.012)) / (0.939 * 0.012)))"
proof (intro conjI impI)
  assume h: "m \<in> set DIELECTRIC_LIST \<and> c \<in> set CONDUCTOR_LIST \<and>
             t \<in> set INSULATION_THICKNESS_LIST"
  then have D: "0 < snd (snd c)" and t: "0 < t"
    by (simp_all add: diameter_pos thickness_pos)
  show "capacitance STRANDING_FACTOR m c t =
        Inr ((2.2 * snd m) / log 10 ((1.3 * (2 * t + snd (snd c))) / (0.939 * snd (snd c))))"
    using capacitance_eq [OF sf_range D t, of m]
    by (simp only: cap_ft_def STRANDING_FACTOR_def)
  show "\<exists>args. line_args STRANDING_FACTOR m c t = Inr args \<and>
         args ! 3 =
           PyFloat ((2.2 * snd m) / log 10 ((1.3 * (2 * t + snd (snd c))) / (0.939 * snd (snd c))))"
    using line_args_eq [OF sf_range D t, of m]
    by (simp add: cap_ft_def STRANDING_FACTOR_def)
next
  have "capacitance STRANDING_FACTOR (''ECTFE/Halar'', 2.60) (''AWG30'', ''7/38'', 0.012) 0.006 =
     Inr (cap_ft STRANDING_FACTOR (snd (''ECTFE/Halar'', 2.60::real))
       (snd (snd (''AWG30'', ''7/38'', 0.012::real))) 0.006)"
    by (rule capacitance_eq) (simp_all add: sf_range)
  then show "capacitance STRANDING_FACTOR (''ECTFE/Halar'', 2.60) (''AWG30'', ''7/38'', 0.012) 0.006 =
     Inr ((2.2 * 2.60) / log 10 ((1.3 * (0.012 + 0.012)) / (0.939 * 0.012)))"
    by (simp add: cap_ft_def STRANDING_FACTOR_def)
qed

lemma table_members:
  "(''PVC'', 5.00) \<in> set DIELECTRIC_LIST"
  "(''AWG24'', ''7/32'', 0.024) \<in> set CONDUCTOR_LIST"
  "0.017 \<in> set INSULATION_THICKNESS_LIST"
  by (simp_all add: DIELECTRIC_LIST_def CONDUCTOR_LIST_def INSULATION_THICKNESS_LIST_def)

text \<open>The triple PVC, AWG24 and 0.017 is in the tables, and the theorem gives its value.\<close>

theorem C1_general_cable_witness:
  "(''PVC'', 5.00) \<in> set DIELECTRIC_LIST \<and>
   (''AWG24'', ''7/32'', 0.024) \<in> set CONDUCTOR_LIST \<and>
   0.017 \<in> set INSULATION_THICKNESS_LIST \<and>
   capacitance STRANDING_FACTOR (''PVC'', 5.00) (''AWG24'', ''7/32'', 0.024) 0.017 =
     Inr ((2.2 * 5.00) / log 10 ((1.3 * (2 * 0.017 + 0.024)) / (0.939 * 0.024)))"
  using C1_general_cable [of "(''PVC'', 5.00)" "(''AWG24'', ''7/32'', 0.024)" "0.017"]
    table_members
  by simp

lemma cap2_ft_not_log10:
  assumes "0 < k" "k \<le> 1" "0 < d" "0 < D" "0 < t"
  shows "cap2_ft k d D t \<noteq> ((12 * 0.7065) / log 10 ((2 * (2 * t + D)) / (k * D))) * d"
proof -
  define q where "q = (2 * (2 * t + D)) / (k * D)"
  have l: "0 < ln q"
    unfolding q_def using assms(1,2,4,5) by (rule log_args)
  have "((12 * 0.7065) / log 10 q) * d = cap2_ft k d D t * ln 10"
    unfolding cap2_ft_def q_def [symmetric] log_def by simp
  moreover have "0 < cap2_ft k d D t"
    using assms by (rule cap2_ft_pos)
  ultimately have "cap2_ft k d D t < ((12 * 0.7065) / log 10 q) * d"
    using ln_10_gt_1 by simp
  then show ?thesis unfolding q_def by simp
qed

text \<open>
  Claim C2. For every material, conductor and thickness of the tables, the Howard Johnson
  value that the loop body computes, the third capacitance argument of \<^verbatim>\<open>print\<close> (index 5
  of the tuple), is \<open>((12 \<times> 0.7065) / ln((2 (2 t + D)) / (0.939 D))) d\<close> with the natural
  logarithm, and it differs from what the same expression gives with the logarithm to
  base 10.
\<close>

theorem C2_howard_johnson:
  "m \<in> set DIELECTRIC_LIST \<and> c \<in> set CONDUCTOR_LIST \<and> t \<in> set INSULATION_THICKNESS_LIST \<longrightarrow>
      capacitance2 STRANDING_FACTOR m c t =
        Inr (((12 * 0.7065) / ln ((2 * (2 * t + snd (snd c))) / (0.939 * snd (snd c)))) * snd m) \<and>
      (\<exists>args. line_args STRANDING_FACTOR m c t = Inr args \<and>
         args ! 5 =
           PyFloat (((12 * 0.7065) / ln ((2 * (2 * t + snd (snd c))) / (0.939 * snd (snd c)))) * snd m)) \<and>
      capacitance2 STRANDING_FACTOR m c t \<noteq>
        Inr (((12 * 0.7065) / log 10 ((2 * (2 * t + snd (snd c))) / (0.939 * snd (snd c)))) * snd m)"
proof (intro conjI impI)
  assume h: "m \<in> set DIELECTRIC_LIST \<and> c \<in> set CONDUCTOR_LIST \<and>
             t \<in> set INSULATION_THICKNESS_LIST"
  then have d: "0 < snd m" and D: "0 < snd (snd c)" and t: "0 < t"
    by (simp_all add: dielectric_pos diameter_pos thickness_pos)
  show "capacitance2 STRANDING_FACTOR m c t =
        Inr (((12 * 0.7065) / ln ((2 * (2 * t + snd (snd c))) / (0.939 * snd (snd c)))) * snd m)"
    using capacitance2_eq [OF sf_range D t, of m]
    by (simp only: cap2_ft_def STRANDING_FACTOR_def)
  show "\<exists>args. line_args STRANDING_FACTOR m c t = Inr args \<and>
         args ! 5 =
           PyFloat (((12 * 0.7065) / ln ((2 * (2 * t + snd (snd c))) / (0.939 * snd (snd c)))) * snd m)"
    using line_args_eq [OF sf_range D t, of m]
    by (simp add: cap2_ft_def STRANDING_FACTOR_def)
  have "cap2_ft STRANDING_FACTOR (snd m) (snd (snd c)) t \<noteq>
      ((12 * 0.7065) / log 10 ((2 * (2 * t + snd (snd c))) / (STRANDING_FACTOR * snd (snd c)))) * snd m"
    using sf_range d D t by (rule cap2_ft_not_log10)
  then show "capacitance2 STRANDING_FACTOR m c t \<noteq>
        Inr (((12 * 0.7065) / log 10 ((2 * (2 * t + snd (snd c))) / (0.939 * snd (snd c)))) * snd m)"
    unfolding capacitance2_eq [OF sf_range D t, of m]
    by (simp only: STRANDING_FACTOR_def sum.inject not_False_eq_True)
qed

text \<open>The same triple of the tables, for the second formula.\<close>

theorem C2_howard_johnson_witness:
  "(''PVC'', 5.00) \<in> set DIELECTRIC_LIST \<and>
   (''AWG24'', ''7/32'', 0.024) \<in> set CONDUCTOR_LIST \<and>
   0.017 \<in> set INSULATION_THICKNESS_LIST \<and>
   capacitance2 STRANDING_FACTOR (''PVC'', 5.00) (''AWG24'', ''7/32'', 0.024) 0.017 =
     Inr (((12 * 0.7065) / ln ((2 * (2 * 0.017 + 0.024)) / (0.939 * 0.024))) * 5.00)"
  using C2_howard_johnson [of "(''PVC'', 5.00)" "(''AWG24'', ''7/32'', 0.024)" "0.017"]
    table_members
  by simp

lemma py_div_arg:
  assumes "0 < k" "k \<le> 1" "0 < D" "0 < t" "1 \<le> a"
  shows "\<exists>q. py_div (a * ((2.0 * t) + D)) (k * D) = Inr q \<and> 1 < q"
proof -
  have "k * D \<noteq> 0" using assms by simp
  then have "py_div (a * ((2.0 * t) + D)) (k * D) = Inr ((a * (2 * t + D)) / (k * D))"
    unfolding py_div_def by simp
  moreover have "a < (a * (2 * t + D)) / (k * D)"
    using assms(5,1,2,3,4) by (rule ratio_gt)
  then have "1 < (a * (2 * t + D)) / (k * D)"
    using assms(5) by (rule le_less_trans [rotated])
  ultimately show ?thesis by blast
qed

text \<open>
  Claim C3. For every combination of the tables, with the stranding factor 0.939, the two
  quotients that are handed to \<^verbatim>\<open>math.log10\<close> and \<^verbatim>\<open>math.log\<close> are computed without a
  division by zero and are greater than 1, both capacitances are computed without an
  exception and are positive, the loop body writes its line, and the run as a whole ends
  in a normal exit, not in an exception.
\<close>

theorem C3_positive_no_error:
  "(m \<in> set DIELECTRIC_LIST \<and> c \<in> set CONDUCTOR_LIST \<and> t \<in> set INSULATION_THICKNESS_LIST \<longrightarrow>
      (\<exists>q. py_div (1.3 * ((2.0 * t) + snd (snd c))) (STRANDING_FACTOR * snd (snd c)) = Inr q \<and>
           1 < q) \<and>
      (\<exists>q. py_div (2 * ((2.0 * t) + snd (snd c))) (STRANDING_FACTOR * snd (snd c)) = Inr q \<and>
           1 < q) \<and>
      (\<exists>v. capacitance STRANDING_FACTOR m c t = Inr v \<and> 0 < v) \<and>
      (\<exists>v. capacitance2 STRANDING_FACTOR m c t = Inr v \<and> 0 < v) \<and>
      (\<exists>l. body STRANDING_FACTOR m c t = Inr l)) \<and>
   (\<exists>out. utp = Exit 0 out)"
proof (intro conjI impI)
  assume h: "m \<in> set DIELECTRIC_LIST \<and> c \<in> set CONDUCTOR_LIST \<and>
             t \<in> set INSULATION_THICKNESS_LIST"
  then have d: "0 < snd m" and D: "0 < snd (snd c)" and t: "0 < t"
    by (simp_all add: dielectric_pos diameter_pos thickness_pos)
  show "\<exists>q. py_div (1.3 * ((2.0 * t) + snd (snd c))) (STRANDING_FACTOR * snd (snd c)) = Inr q \<and>
           1 < q"
    using sf_range D t by (rule py_div_arg) simp
  show "\<exists>q. py_div (2 * ((2.0 * t) + snd (snd c))) (STRANDING_FACTOR * snd (snd c)) = Inr q \<and>
           1 < q"
    using sf_range D t by (rule py_div_arg) simp
  have "0 < cap_ft STRANDING_FACTOR (snd m) (snd (snd c)) t"
    using sf_range d D t by (rule cap_ft_pos)
  then show "\<exists>v. capacitance STRANDING_FACTOR m c t = Inr v \<and> 0 < v"
    using capacitance_eq [OF sf_range D t, of m] by blast
  have "0 < cap2_ft STRANDING_FACTOR (snd m) (snd (snd c)) t"
    using sf_range d D t by (rule cap2_ft_pos)
  then show "\<exists>v. capacitance2 STRANDING_FACTOR m c t = Inr v \<and> 0 < v"
    using capacitance2_eq [OF sf_range D t, of m] by blast
  show "\<exists>l. body STRANDING_FACTOR m c t = Inr l"
    using body_eq [OF sf_range D t, of m] by blast
next
  show "\<exists>out. utp = Exit 0 out"
    using utp_eq by blast
qed

text \<open>A triple of the tables, for which the theorem gives two positive values and a line.\<close>

theorem C3_positive_no_error_witness:
  "(''PVC'', 5.00) \<in> set DIELECTRIC_LIST \<and>
   (''AWG24'', ''7/32'', 0.024) \<in> set CONDUCTOR_LIST \<and>
   0.017 \<in> set INSULATION_THICKNESS_LIST \<and>
   (\<exists>v. capacitance STRANDING_FACTOR (''PVC'', 5.00) (''AWG24'', ''7/32'', 0.024) 0.017 = Inr v \<and>
        0 < v) \<and>
   (\<exists>v. capacitance2 STRANDING_FACTOR (''PVC'', 5.00) (''AWG24'', ''7/32'', 0.024) 0.017 = Inr v \<and>
        0 < v) \<and>
   (\<exists>l. body STRANDING_FACTOR (''PVC'', 5.00) (''AWG24'', ''7/32'', 0.024) 0.017 = Inr l)"
  using C3_positive_no_error [of "(''PVC'', 5.00)" "(''AWG24'', ''7/32'', 0.024)" "0.017"]
    table_members
  by simp

text \<open>
  The exact arithmetic of the model leaves rounding out. The tolerance has room for it:
  a relative error of up to \<open>10\<^sup>-\<^sup>1\<^sup>0\<close> in the divisor and in the quotient, far more than a
  rounded double carries, keeps the per-millimeter value within the bound.
\<close>

lemma per_mm_rounding_margin:
  fixes x e1 e2 :: real
  assumes e1: "\<bar>e1\<bar> \<le> 1 / 10 ^ 10" and e2: "\<bar>e2\<bar> \<le> 1 / 10 ^ 10"
  shows "\<bar>x / (MM_PER_FT * (1 + e1)) * (1 + e2) - x / 304.8\<bar> \<le> 1 / 10 ^ 9 * \<bar>x / 304.8\<bar>"
proof -
  have b: "- (1 / 10000000000) \<le> e1" "e1 \<le> 1 / 10000000000"
          "- (1 / 10000000000) \<le> e2" "e2 \<le> 1 / 10000000000"
    using e1 e2 by simp_all
  have pos: "0 < 1 + e1" using b by argo
  have "e2 - e1 \<le> (1 + e1) / 1000000000" using b by argo
  then have up: "e2 - e1 \<le> (1 / 1000000000) * (1 + e1)" by simp
  have "- ((1 + e1) / 1000000000) \<le> e2 - e1" using b by argo
  then have lo: "- (1 / 1000000000) * (1 + e1) \<le> e2 - e1" by simp
  have hi: "(e2 - e1) / (1 + e1) \<le> 1 / 1000000000"
    using up pos by (simp only: pos_divide_le_eq)
  have "- (1 / 1000000000) \<le> (e2 - e1) / (1 + e1)"
    using lo pos by (simp only: pos_le_divide_eq)
  then have "- ((e2 - e1) / (1 + e1)) \<le> 1 / 1000000000"
    by (subst minus_le_iff)
  with hi have q: "\<bar>(e2 - e1) / (1 + e1)\<bar> \<le> 1 / 1000000000"
    by (rule abs_leI)
  have eq: "x / (MM_PER_FT * (1 + e1)) * (1 + e2) - x / 304.8 =
                 (x / 304.8) * ((e2 - e1) / (1 + e1))"
    using pos by (simp add: MM_PER_FT_eq field_simps)
  have "\<bar>(x / 304.8) * ((e2 - e1) / (1 + e1))\<bar> \<le> \<bar>x / 304.8\<bar> * (1 / 1000000000)"
    unfolding abs_mult using q by (rule mult_left_mono) simp
  then show ?thesis unfolding eq by simp
qed



subsection \<open>How the formulas move with the stranding factor and the thickness\<close>

lemma quot_less:
  fixes b a c :: real
  assumes "0 < b" "b < a" "0 < c"
  shows "c / a < c / b"
  using assms by (intro divide_strict_left_mono) simp_all


lemma ratio_mono_t:
  fixes a k D t t' :: real
  assumes "0 < a" "0 < k" "0 < D" "t < t'"
  shows "(a * (2 * t + D)) / (k * D) < (a * (2 * t' + D)) / (k * D)"
proof -
  have "a * (2 * t + D) < a * (2 * t' + D)" "0 < k * D"
    using assms by simp_all
  then show ?thesis by (rule divide_strict_right_mono)
qed

lemma cap_ft_less:
  fixes d q q' :: real
  assumes "0 < d" "1 < q'" "q' < q"
  shows "(2.2 * d) / log 10 q < (2.2 * d) / log 10 q'"
proof -
  have "0 < log 10 q'" using assms by simp
  moreover have "log 10 q' < log 10 q" using assms by simp
  moreover have "0 < 2.2 * d" using assms by simp
  ultimately show ?thesis by (rule quot_less)
qed

lemma cap2_ft_less:
  fixes d q q' :: real
  assumes "0 < d" "1 < q'" "q' < q"
  shows "((12 * 0.7065) / ln q) * d < ((12 * 0.7065) / ln q') * d"
proof -
  have "0 < ln q'" using assms by simp
  moreover have "ln q' < ln q" using assms by simp
  moreover have "(0::real) < 12 * 0.7065" by simp
  ultimately have "(12 * 0.7065) / ln q < (12 * 0.7065) / ln q'" by (rule quot_less)
  then show ?thesis using assms(1) by (rule mult_strict_right_mono)
qed



lemma cap_ft_anti_t:
  assumes "0 < k" "k \<le> 1" "0 < d" "0 < D" "0 < t" "t < t'"
  shows "cap_ft k d D t' < cap_ft k d D t"
  unfolding cap_ft_def
proof (rule cap_ft_less)
  show "0 < d" by fact
  show "1 < (1.3 * (2 * t + D)) / (k * D)"
    using assms by (intro arg10_gt_1) simp_all
  show "(1.3 * (2 * t + D)) / (k * D) < (1.3 * (2 * t' + D)) / (k * D)"
    using assms by (intro ratio_mono_t) simp_all
qed

lemma cap2_ft_anti_t:
  assumes "0 < k" "k \<le> 1" "0 < d" "0 < D" "0 < t" "t < t'"
  shows "cap2_ft k d D t' < cap2_ft k d D t"
  unfolding cap2_ft_def
proof (rule cap2_ft_less)
  show "0 < d" by fact
  show "1 < (2 * (2 * t + D)) / (k * D)"
    using assms by (intro arge_gt_1) simp_all
  show "(2 * (2 * t + D)) / (k * D) < (2 * (2 * t' + D)) / (k * D)"
    using assms by (intro ratio_mono_t) simp_all
qed




lemma thickness_increasing: "sorted_wrt (<) INSULATION_THICKNESS_LIST"
  by (simp add: INSULATION_THICKNESS_LIST_def)

subsection \<open>The thickness: in double precision, and over the table\<close>

text \<open>
  The rounding at concrete numbers: a number between \<open>2\<^sup>-\<^sup>n\<close> and \<open>2\<^sup>1\<^sup>-\<^sup>n\<close> is rounded
  to a multiple of \<open>2\<^sup>-\<^sup>n\<^sup>-\<^sup>5\<^sup>2\<close>, one between \<open>2\<^sup>n\<close> and \<open>2\<^sup>n\<^sup>+\<^sup>1\<close> to a multiple of
  \<open>2\<^sup>n\<^sup>-\<^sup>5\<^sup>2\<close>.
\<close>

lemma floor_log2:
  fixes x :: real
  assumes "0 < x" "2 powr (of_int k) \<le> x" "x < 2 * 2 powr (of_int k)"
  shows "\<lfloor>log 2 x\<rfloor> = k"
proof -
  have "(2::real) powr (of_int (k + 1)) = 2 powr (of_int k) * 2 powr 1"
    by (simp only: of_int_add of_int_1 powr_add)
  then have "(2::real) powr (of_int (k + 1)) = 2 * 2 powr (of_int k)"
    by simp
  with assms have "2 powr (of_int k) \<le> x \<and> x < 2 powr (of_int (k + 1))"
    by simp
  moreover have "(1::real) < 2" by simp
  ultimately show ?thesis
    using floor_log_eq_powr_iff [OF assms(1), of 2 k] by blast
qed

lemma fl_small:
  assumes "1 / 2 ^ n \<le> x" "x < 2 / 2 ^ n"
  shows "fl x = of_int (round_half_even (x * 2 ^ (n + 52))) / 2 ^ (n + 52)"
proof -
  have "(0::real) < 1 / 2 ^ n" by simp
  with assms have pos: "0 < x" by linarith
  have p: "(2::real) powr (of_int (- int n)) = 1 / 2 ^ n"
    by (simp add: powr_minus powr_realpow divide_inverse)
  have "\<lfloor>log 2 x\<rfloor> = - int n"
  proof (rule floor_log2)
    show "0 < x" by fact
    show "2 powr of_int (- int n) \<le> x" unfolding p by fact
    show "x < 2 * 2 powr of_int (- int n)" unfolding p using assms(2) by simp
  qed
  moreover have "(2::real) powr (of_int (- int n - 52)) = 1 / 2 ^ (n + 52)"
  proof -
    have "- int n - 52 = - int (n + 52)" by simp
    then show ?thesis
      by (simp only: of_int_minus of_int_of_nat_eq powr_minus powr_realpow zero_less_numeral
          divide_inverse mult_1)
  qed
  ultimately show ?thesis
    using pos by (simp add: fl_def Let_def)
qed

lemma fl_big:
  assumes "2 ^ n \<le> x" "x < 2 * 2 ^ n" "n \<le> 52"
  shows "fl x = of_int (round_half_even (x * 2 ^ (52 - n))) / 2 ^ (52 - n)"
proof -
  have "(0::real) < 2 ^ n" by simp
  with assms have pos: "0 < x" by linarith
  have p: "(2::real) powr (of_int (int n)) = 2 ^ n"
    by (simp add: powr_realpow)
  have "\<lfloor>log 2 x\<rfloor> = int n"
  proof (rule floor_log2)
    show "0 < x" by fact
    show "2 powr of_int (int n) \<le> x" unfolding p by fact
    show "x < 2 * 2 powr of_int (int n)" unfolding p by fact
  qed
  moreover have "(2::real) powr (of_int (int n - 52)) = 1 / 2 ^ (52 - n)"
  proof -
    have "int n - 52 = - int (52 - n)" using assms(3) by simp
    then show ?thesis
      by (simp only: of_int_minus of_int_of_nat_eq powr_minus powr_realpow zero_less_numeral
          divide_inverse mult_1)
  qed
  ultimately show ?thesis
    using pos by (simp add: fl_def Let_def)
qed

lemma fl_t1: "fl (1 / 10 ^ 18) = 5192296858534828 / 2 ^ 112"
  by (subst fl_small [of 60]) (simp_all add: round_half_even_def Let_def)

lemma fl_t2: "fl (2 / 10 ^ 18) = 5192296858534828 / 2 ^ 111"
  by (subst fl_small [of 59]) (simp_all add: round_half_even_def Let_def)

lemma fl_D: "fl 0.024 = 6917529027641082 / 2 ^ 58"
  by (subst fl_small [of 6]) (simp_all add: round_half_even_def Let_def)

lemma fl_2t1: "fl (2.0 * (5192296858534828 / 2 ^ 112)) = 5192296858534828 / 2 ^ 111"
  by (subst fl_small [of 59]) (simp_all add: round_half_even_def Let_def)

lemma fl_2t2: "fl (2.0 * (5192296858534828 / 2 ^ 111)) = 5192296858534828 / 2 ^ 110"
  by (subst fl_small [of 58]) (simp_all add: round_half_even_def Let_def)

lemma fl_sum1:
  "fl (5192296858534828 / 2 ^ 111 + 6917529027641082 / 2 ^ 58) = 6917529027641083 / 2 ^ 58"
  by (subst fl_small [of 6]) (simp_all add: round_half_even_def Let_def)

lemma fl_sum2:
  "fl (5192296858534828 / 2 ^ 110 + 6917529027641082 / 2 ^ 58) = 6917529027641083 / 2 ^ 58"
  by (subst fl_small [of 6]) (simp_all add: round_half_even_def Let_def)

lemma round_half_even_ge_floor: "\<lfloor>y\<rfloor> \<le> round_half_even y"
  by (simp add: round_half_even_def Let_def)

lemma fl_pos:
  assumes "0 < x"
  shows "0 < fl x"
proof -
  define k where "k = \<lfloor>log 2 x\<rfloor>"
  define u where "u = (2::real) powr (of_int (k - 52))"
  define c where "c = (2::real) powr 52"
  have u: "0 < u" unfolding u_def by simp
  have c: "1 \<le> c" unfolding c_def by simp
  have "(1::real) < 2" by simp
  with assms have kx: "2 powr (of_int k) \<le> x"
    using floor_log_eq_powr_iff [of x 2 k] unfolding k_def by blast
  have e: "(52::real) + of_int (k - 52) = of_int k" by simp
  have "c * u = 2 powr (52 + of_int (k - 52))"
    unfolding c_def u_def by (rule powr_add [symmetric])
  then have "c * u = 2 powr (of_int k)" by (simp only: e)
  with kx have "c * u \<le> x" by simp
  then have "c \<le> x / u" using u by (simp add: pos_le_divide_eq)
  with c have "1 \<le> x / u" by linarith
  then have "1 \<le> \<lfloor>x / u\<rfloor>" by (simp add: le_floor_iff)
  then have "1 \<le> round_half_even (x / u)"
    using round_half_even_ge_floor [of "x / u"] by linarith
  then have "0 < real_of_int (round_half_even (x / u)) * u"
    using u by simp
  then show ?thesis
    using assms unfolding fl_def Let_def u_def k_def by simp
qed

lemma fl_consts:
  "fl 1.3 = 5854679515581645 / 2 ^ 52"
  "fl 2.2 = 2476979795053773 / 2 ^ 50"
  "fl 5.00 = 5"
  by (subst fl_big [of 0], simp_all add: round_half_even_def Let_def,
      subst fl_big [of 1], simp_all add: round_half_even_def Let_def,
      subst fl_big [of 2], simp_all add: round_half_even_def Let_def)

lemma fl_consts_small:
  "fl 0.939 = 8457760100201791 / 2 ^ 53"
  "fl 0.7065 = 6363586273474511 / 2 ^ 53"
  by (subst fl_small [of 1], simp_all add: round_half_even_def Let_def)+

lemma fl_a: "fl (5854679515581645 / 2 ^ 52 * (6917529027641083 / 2 ^ 58)) = 281024616747919 / 2 ^ 53"
  by (subst fl_small [of 6]) (simp_all add: round_half_even_def Let_def)

lemma fl_b: "fl (8457760100201791 / 2 ^ 53 * (6917529027641082 / 2 ^ 58)) = 202986242404843 / 2 ^ 53"
  by (subst fl_small [of 6]) (simp_all add: round_half_even_def Let_def)

lemma fl_q: "fl (281024616747919 / 2 ^ 53 / (202986242404843 / 2 ^ 53)) = 6235015458553403 / 2 ^ 52"
  by (subst fl_big [of 0]) (simp_all add: round_half_even_def Let_def)

lemma fl_num: "fl (2476979795053773 / 2 ^ 50 * 5) = 11"
  by (subst fl_big [of 3]) (simp_all add: round_half_even_def Let_def)

lemma fl_a2: "fl (2 * (6917529027641083 / 2 ^ 58)) = 6917529027641083 / 2 ^ 57"
  by (subst fl_small [of 5]) (simp_all add: round_half_even_def Let_def)

lemma fl_q2: "fl (6917529027641083 / 2 ^ 57 / (202986242404843 / 2 ^ 53)) = 1199041434337193 / 2 ^ 49"
  by (subst fl_big [of 1]) (simp_all add: round_half_even_def Let_def)

lemma fl_c: "fl (12 * (6363586273474511 / 2 ^ 53)) = 4772689705105883 / 2 ^ 49"
  by (subst fl_big [of 3]) (simp_all add: round_half_even_def Let_def)

lemma capacitance_fl_same_sum:
  assumes "fl (fl (2.0 * t) + fl 0.024) = 6917529027641083 / 2 ^ 58"
  shows "capacitance_fl (fl 0.939) (''PVC'', fl 5.00) (''AWG24'', ''7/32'', fl 0.024) t =
           Inr (fl (11 / fl (log 10 (6235015458553403 / 2 ^ 52))))"
proof -
  have b: "(202986242404843 / 2 ^ 53 :: real) \<noteq> 0" by simp
  have s1: "py_div_fl (281024616747919 / 2 ^ 53) (202986242404843 / 2 ^ 53) =
              Inr (6235015458553403 / 2 ^ 52)"
    unfolding py_div_fl_def using b by (simp only: if_False fl_q)
  have q: "(1::real) < 6235015458553403 / 2 ^ 52" by simp
  then have s2: "math_log10_fl (6235015458553403 / 2 ^ 52) =
                   Inr (fl (log 10 (6235015458553403 / 2 ^ 52)))"
    unfolding math_log10_fl_def by simp
  have "0 < log 10 (6235015458553403 / 2 ^ 52)" using q by simp
  then have "0 < fl (log 10 (6235015458553403 / 2 ^ 52))" by (rule fl_pos)
  then have s3: "py_div_fl 11 (fl (log 10 (6235015458553403 / 2 ^ 52))) =
                   Inr (fl (11 / fl (log 10 (6235015458553403 / 2 ^ 52))))"
    unfolding py_div_fl_def by simp
  show ?thesis
    unfolding capacitance_fl_def snd_conv assms
    unfolding fl_consts fl_consts_small fl_D fl_a fl_b fl_num
    by (simp only: s1 s2 s3 sum.case)
qed

lemma capacitance2_fl_same_sum:
  assumes "fl (fl (2.0 * t) + fl 0.024) = 6917529027641083 / 2 ^ 58"
  shows "capacitance2_fl (fl 0.939) (''PVC'', fl 5.00) (''AWG24'', ''7/32'', fl 0.024) t =
           Inr (fl (fl (4772689705105883 / 2 ^ 49 / fl (ln (1199041434337193 / 2 ^ 49))) * 5))"
proof -
  have b: "(202986242404843 / 2 ^ 53 :: real) \<noteq> 0" by simp
  have s1: "py_div_fl (6917529027641083 / 2 ^ 57) (202986242404843 / 2 ^ 53) =
              Inr (1199041434337193 / 2 ^ 49)"
    unfolding py_div_fl_def using b by (simp only: if_False fl_q2)
  have q: "(1::real) < 1199041434337193 / 2 ^ 49" by simp
  then have s2: "math_log_fl (1199041434337193 / 2 ^ 49) =
                   Inr (fl (ln (1199041434337193 / 2 ^ 49)))"
    unfolding math_log_fl_def by simp
  have "0 < ln (1199041434337193 / 2 ^ 49 :: real)" using q by (rule ln_gt_zero)
  then have "0 < fl (ln (1199041434337193 / 2 ^ 49))" by (rule fl_pos)
  then have s3: "py_div_fl (4772689705105883 / 2 ^ 49) (fl (ln (1199041434337193 / 2 ^ 49))) =
                   Inr (fl (4772689705105883 / 2 ^ 49 / fl (ln (1199041434337193 / 2 ^ 49))))"
    unfolding py_div_fl_def by simp
  show ?thesis
    unfolding capacitance2_fl_def snd_conv assms
    unfolding fl_consts fl_consts_small fl_D fl_a2 fl_b fl_c
    by (simp only: s1 s2 s3 sum.case)
qed

text \<open>
  Claim C10 says that the computed capacitances drop strictly for any thickness \<open>t > 0\<close>.
  In double precision two thicknesses that lie closer together than the doubles around
  the diameter can give the same sum \<^verbatim>\<open>( 2.0 * thickness ) + conductor[2]\<close>, one step above
  the diameter, and so the same capacitances: for PVC and AWG24 the thicknesses \<^verbatim>\<open>1e-18\<close> and \<^verbatim>\<open>2e-18\<close>, of which the
  second is the larger, yield one and the same value of each formula, not a smaller one
  for the thicker insulation.
\<close>

theorem C10_thickness_counterexample:
  "capacitance_fl (fl 0.939) (''PVC'', fl 5.00) (''AWG24'', ''7/32'', fl 0.024) (fl (1 / 10 ^ 18)) =
     Inr (fl (11 / fl (log 10 (6235015458553403 / 2 ^ 52)))) \<and>
   capacitance_fl (fl 0.939) (''PVC'', fl 5.00) (''AWG24'', ''7/32'', fl 0.024) (fl (2 / 10 ^ 18)) =
     Inr (fl (11 / fl (log 10 (6235015458553403 / 2 ^ 52)))) \<and>
   capacitance2_fl (fl 0.939) (''PVC'', fl 5.00) (''AWG24'', ''7/32'', fl 0.024) (fl (1 / 10 ^ 18)) =
     Inr (fl (fl (4772689705105883 / 2 ^ 49 / fl (ln (1199041434337193 / 2 ^ 49))) * 5)) \<and>
   capacitance2_fl (fl 0.939) (''PVC'', fl 5.00) (''AWG24'', ''7/32'', fl 0.024) (fl (2 / 10 ^ 18)) =
     Inr (fl (fl (4772689705105883 / 2 ^ 49 / fl (ln (1199041434337193 / 2 ^ 49))) * 5)) \<and>
   0 < fl (1 / 10 ^ 18) \<and> fl (1 / 10 ^ 18) < fl (2 / 10 ^ 18)"
proof -
  have sum1: "fl (fl (2.0 * fl (1 / 10 ^ 18)) + fl 0.024) = 6917529027641083 / 2 ^ 58"
    unfolding fl_t1 fl_2t1 fl_D by (rule fl_sum1)
  have sum2: "fl (fl (2.0 * fl (2 / 10 ^ 18)) + fl 0.024) = 6917529027641083 / 2 ^ 58"
    unfolding fl_t2 fl_2t2 fl_D by (rule fl_sum2)
  have pos: "0 < fl (1 / 10 ^ 18)" unfolding fl_t1 by simp
  have less: "fl (1 / 10 ^ 18) < fl (2 / 10 ^ 18)" unfolding fl_t1 fl_t2 by simp
  show ?thesis
    using capacitance_fl_same_sum [OF sum1] capacitance_fl_same_sum [OF sum2]
      capacitance2_fl_same_sum [OF sum1] capacitance2_fl_same_sum [OF sum2] pos less
    by blast
qed

text \<open>
  Claim C10 as amended. For a material and a conductor of the tables and the stranding
  factor 0.939, both computed capacitances are strictly decreasing over the thicknesses
  of the table: the table is strictly increasing, and of two lines of one material and
  conductor the later one, which has the thicker insulation, is written from a tuple
  whose four capacitance values (both formulas, per foot and per millimeter) are
  strictly smaller. So the 12 lines of each group, in the order in which they stand in the
  output, carry strictly decreasing capacitance values. This is about the values handed
  to \<^verbatim>\<open>print\<close>, in the exact arithmetic of the model.
\<close>

theorem C10_table_thickness_decreasing:
  "i < 16 \<and> j < 5 \<and> n < n' \<and> n' < 12 \<longrightarrow>
     (\<exists>v vm w wm v' vm' w' wm'.
        line_args STRANDING_FACTOR (DIELECTRIC_LIST ! i) (CONDUCTOR_LIST ! j)
            (INSULATION_THICKNESS_LIST ! n) =
          Inr [PyStr (fst (CONDUCTOR_LIST ! j)), PyFloat (INSULATION_THICKNESS_LIST ! n),
               PyStr (fst (DIELECTRIC_LIST ! i)),
               PyFloat v, PyFloat vm, PyFloat w, PyFloat wm] \<and>
        line_args STRANDING_FACTOR (DIELECTRIC_LIST ! i) (CONDUCTOR_LIST ! j)
            (INSULATION_THICKNESS_LIST ! n') =
          Inr [PyStr (fst (CONDUCTOR_LIST ! j)), PyFloat (INSULATION_THICKNESS_LIST ! n'),
               PyStr (fst (DIELECTRIC_LIST ! i)),
               PyFloat v', PyFloat vm', PyFloat w', PyFloat wm'] \<and>
        body STRANDING_FACTOR (DIELECTRIC_LIST ! i) (CONDUCTOR_LIST ! j)
            (INSULATION_THICKNESS_LIST ! n) = Inr (stdout utp ! (i * 60 + j * 12 + n)) \<and>
        body STRANDING_FACTOR (DIELECTRIC_LIST ! i) (CONDUCTOR_LIST ! j)
            (INSULATION_THICKNESS_LIST ! n') = Inr (stdout utp ! (i * 60 + j * 12 + n')) \<and>
        capacitance STRANDING_FACTOR (DIELECTRIC_LIST ! i) (CONDUCTOR_LIST ! j)
            (INSULATION_THICKNESS_LIST ! n) = Inr v \<and>
        capacitance STRANDING_FACTOR (DIELECTRIC_LIST ! i) (CONDUCTOR_LIST ! j)
            (INSULATION_THICKNESS_LIST ! n') = Inr v' \<and>
        capacitance2 STRANDING_FACTOR (DIELECTRIC_LIST ! i) (CONDUCTOR_LIST ! j)
            (INSULATION_THICKNESS_LIST ! n) = Inr w \<and>
        capacitance2 STRANDING_FACTOR (DIELECTRIC_LIST ! i) (CONDUCTOR_LIST ! j)
            (INSULATION_THICKNESS_LIST ! n') = Inr w' \<and>
        INSULATION_THICKNESS_LIST ! n < INSULATION_THICKNESS_LIST ! n' \<and>
        v' < v \<and> vm' < vm \<and> w' < w \<and> wm' < wm)"
proof
  assume h: "i < 16 \<and> j < 5 \<and> n < n' \<and> n' < 12"
  define m where "m = DIELECTRIC_LIST ! i"
  define c where "c = CONDUCTOR_LIST ! j"
  define t where "t = INSULATION_THICKNESS_LIST ! n"
  define t' where "t' = INSULATION_THICKNESS_LIST ! n'"
  from h have n: "n < 12" by simp
  from h have mem: "m \<in> set DIELECTRIC_LIST" "c \<in> set CONDUCTOR_LIST"
    "t \<in> set INSULATION_THICKNESS_LIST" "t' \<in> set INSULATION_THICKNESS_LIST"
    unfolding m_def c_def t_def t'_def using n by (simp_all add: table_lengths)
  then have d: "0 < snd m" and D: "0 < snd (snd c)" and t: "0 < t" and t0: "0 < t'"
    by (simp_all add: dielectric_pos diameter_pos thickness_pos)
  from h have nn: "n < n'" and n': "n' < length INSULATION_THICKNESS_LIST"
    by (simp_all add: table_lengths)
  have tt: "t < t'"
    unfolding t_def t'_def using thickness_increasing nn n' by (rule sorted_wrt_nth_less)
  define v where "v = cap_ft STRANDING_FACTOR (snd m) (snd (snd c)) t"
  define v' where "v' = cap_ft STRANDING_FACTOR (snd m) (snd (snd c)) t'"
  define w where "w = cap2_ft STRANDING_FACTOR (snd m) (snd (snd c)) t"
  define w' where "w' = cap2_ft STRANDING_FACTOR (snd m) (snd (snd c)) t'"
  have 1: "line_args STRANDING_FACTOR m c t =
      Inr [PyStr (fst c), PyFloat t, PyStr (fst m),
           PyFloat v, PyFloat (v / 304.8), PyFloat w, PyFloat (w / 304.8)]"
    unfolding v_def w_def using sf_range D t by (rule line_args_eq)
  have 2: "line_args STRANDING_FACTOR m c t' =
      Inr [PyStr (fst c), PyFloat t', PyStr (fst m),
           PyFloat v', PyFloat (v' / 304.8), PyFloat w', PyFloat (w' / 304.8)]"
    unfolding v'_def w'_def using sf_range D t0 by (rule line_args_eq)
  have out: "stdout utp = spec_output STRANDING_FACTOR"
    by (simp add: utp_eq)
  have "spec_output STRANDING_FACTOR ! (i * 60 + j * 12 + n) = spec_line STRANDING_FACTOR m c t"
    unfolding m_def c_def t_def using h n by (intro spec_output_nth) (simp_all add: table_lengths)
  then have 3: "body STRANDING_FACTOR m c t = Inr (stdout utp ! (i * 60 + j * 12 + n))"
    by (simp only: out table_body [OF mem(2) mem(3)])
  have "spec_output STRANDING_FACTOR ! (i * 60 + j * 12 + n') = spec_line STRANDING_FACTOR m c t'"
    unfolding m_def c_def t'_def using h by (intro spec_output_nth) (simp_all add: table_lengths)
  then have 4: "body STRANDING_FACTOR m c t' = Inr (stdout utp ! (i * 60 + j * 12 + n'))"
    by (simp only: out table_body [OF mem(2) mem(4)])
  have 5: "capacitance STRANDING_FACTOR m c t = Inr v"
    "capacitance STRANDING_FACTOR m c t' = Inr v'"
    unfolding v_def v'_def
    by (rule capacitance_eq [OF sf_range D t] capacitance_eq [OF sf_range D t0])+
  have 6: "capacitance2 STRANDING_FACTOR m c t = Inr w"
    "capacitance2 STRANDING_FACTOR m c t' = Inr w'"
    unfolding w_def w'_def
    by (rule capacitance2_eq [OF sf_range D t] capacitance2_eq [OF sf_range D t0])+
  have 7: "v' < v"
    unfolding v_def v'_def using sf_range d D t tt by (rule cap_ft_anti_t)
  have 8: "w' < w"
    unfolding w_def w'_def using sf_range d D t tt by (rule cap2_ft_anti_t)
  have 9: "v' / 304.8 < v / 304.8" "w' / 304.8 < w / 304.8"
    using 7 8 by (simp_all add: divide_strict_right_mono)
  show "\<exists>v vm w wm v' vm' w' wm'.
        line_args STRANDING_FACTOR (DIELECTRIC_LIST ! i) (CONDUCTOR_LIST ! j)
            (INSULATION_THICKNESS_LIST ! n) =
          Inr [PyStr (fst (CONDUCTOR_LIST ! j)), PyFloat (INSULATION_THICKNESS_LIST ! n),
               PyStr (fst (DIELECTRIC_LIST ! i)),
               PyFloat v, PyFloat vm, PyFloat w, PyFloat wm] \<and>
        line_args STRANDING_FACTOR (DIELECTRIC_LIST ! i) (CONDUCTOR_LIST ! j)
            (INSULATION_THICKNESS_LIST ! n') =
          Inr [PyStr (fst (CONDUCTOR_LIST ! j)), PyFloat (INSULATION_THICKNESS_LIST ! n'),
               PyStr (fst (DIELECTRIC_LIST ! i)),
               PyFloat v', PyFloat vm', PyFloat w', PyFloat wm'] \<and>
        body STRANDING_FACTOR (DIELECTRIC_LIST ! i) (CONDUCTOR_LIST ! j)
            (INSULATION_THICKNESS_LIST ! n) = Inr (stdout utp ! (i * 60 + j * 12 + n)) \<and>
        body STRANDING_FACTOR (DIELECTRIC_LIST ! i) (CONDUCTOR_LIST ! j)
            (INSULATION_THICKNESS_LIST ! n') = Inr (stdout utp ! (i * 60 + j * 12 + n')) \<and>
        capacitance STRANDING_FACTOR (DIELECTRIC_LIST ! i) (CONDUCTOR_LIST ! j)
            (INSULATION_THICKNESS_LIST ! n) = Inr v \<and>
        capacitance STRANDING_FACTOR (DIELECTRIC_LIST ! i) (CONDUCTOR_LIST ! j)
            (INSULATION_THICKNESS_LIST ! n') = Inr v' \<and>
        capacitance2 STRANDING_FACTOR (DIELECTRIC_LIST ! i) (CONDUCTOR_LIST ! j)
            (INSULATION_THICKNESS_LIST ! n) = Inr w \<and>
        capacitance2 STRANDING_FACTOR (DIELECTRIC_LIST ! i) (CONDUCTOR_LIST ! j)
            (INSULATION_THICKNESS_LIST ! n') = Inr w' \<and>
        INSULATION_THICKNESS_LIST ! n < INSULATION_THICKNESS_LIST ! n' \<and>
        v' < v \<and> vm' < vm \<and> w' < w \<and> wm' < wm"
    using 1 2 3 4 5 6 7 8 9 tt
    unfolding m_def [symmetric] c_def [symmetric] t_def [symmetric] t'_def [symmetric]
    by blast
qed

lemma table_middle:
  "DIELECTRIC_LIST ! 2 = (''PVC'', 5.00)"
  "CONDUCTOR_LIST ! 3 = (''AWG24'', ''7/32'', 0.024)"
  "INSULATION_THICKNESS_LIST ! 5 = 0.017"
  "INSULATION_THICKNESS_LIST ! 6 = 0.018"
  by (simp_all add: DIELECTRIC_LIST_def CONDUCTOR_LIST_def INSULATION_THICKNESS_LIST_def)

text \<open>Two neighbouring lines of the group of PVC and AWG24, at positions 161 and 162.\<close>

theorem C10_table_thickness_decreasing_witness:
  "(2::nat) < 16 \<and> (3::nat) < 5 \<and> (5::nat) < 6 \<and> (6::nat) < 12 \<and>
   (\<exists>v vm w wm v' vm' w' wm'.
      line_args STRANDING_FACTOR (''PVC'', 5.00) (''AWG24'', ''7/32'', 0.024) 0.017 =
        Inr [PyStr ''AWG24'', PyFloat 0.017, PyStr ''PVC'',
             PyFloat v, PyFloat vm, PyFloat w, PyFloat wm] \<and>
      line_args STRANDING_FACTOR (''PVC'', 5.00) (''AWG24'', ''7/32'', 0.024) 0.018 =
        Inr [PyStr ''AWG24'', PyFloat 0.018, PyStr ''PVC'',
             PyFloat v', PyFloat vm', PyFloat w', PyFloat wm'] \<and>
      body STRANDING_FACTOR (''PVC'', 5.00) (''AWG24'', ''7/32'', 0.024) 0.017 =
        Inr (stdout utp ! 161) \<and>
      body STRANDING_FACTOR (''PVC'', 5.00) (''AWG24'', ''7/32'', 0.024) 0.018 =
        Inr (stdout utp ! 162) \<and>
      v' < v \<and> vm' < vm \<and> w' < w \<and> wm' < wm)"
proof -
  have hyp: "(2::nat) < 16 \<and> (3::nat) < 5 \<and> (5::nat) < 6 \<and> (6::nat) < 12"
    by simp
  have idx: "(2::nat) * 60 + 3 * 12 + 5 = 161" "(2::nat) * 60 + 3 * 12 + 6 = 162"
    by simp_all
  from C10_table_thickness_decreasing [of 2 3 5 6, THEN mp, OF hyp]
  have "\<exists>v vm w wm v' vm' w' wm'.
      line_args STRANDING_FACTOR (''PVC'', 5.00) (''AWG24'', ''7/32'', 0.024) 0.017 =
        Inr [PyStr ''AWG24'', PyFloat 0.017, PyStr ''PVC'',
             PyFloat v, PyFloat vm, PyFloat w, PyFloat wm] \<and>
      line_args STRANDING_FACTOR (''PVC'', 5.00) (''AWG24'', ''7/32'', 0.024) 0.018 =
        Inr [PyStr ''AWG24'', PyFloat 0.018, PyStr ''PVC'',
             PyFloat v', PyFloat vm', PyFloat w', PyFloat wm'] \<and>
      body STRANDING_FACTOR (''PVC'', 5.00) (''AWG24'', ''7/32'', 0.024) 0.017 =
        Inr (stdout utp ! 161) \<and>
      body STRANDING_FACTOR (''PVC'', 5.00) (''AWG24'', ''7/32'', 0.024) 0.018 =
        Inr (stdout utp ! 162) \<and>
      v' < v \<and> vm' < vm \<and> w' < w \<and> wm' < wm"
    unfolding table_middle idx fst_conv by blast
  with hyp show ?thesis by blast
qed

subsection \<open>The text of a line\<close>

lemma digit_char_is_digit: "is_digit (digit_char d)"
proof -
  have "d mod 10 < length ''0123456789''" by simp
  then have "''0123456789'' ! (d mod 10) \<in> set ''0123456789''" by (rule nth_mem)
  then show ?thesis unfolding is_digit_def digit_char_def .
qed

lemma digits_are_digits: "\<forall>ch \<in> set (digits n). is_digit ch"
proof (induction n rule: digits.induct)
  case (1 n)
  show ?case
  proof (cases "n < 10")
    case True
    then have "digits n = [digit_char n]" by (subst digits.simps) simp
    then show ?thesis by (simp add: digit_char_is_digit)
  next
    case False
    then have "digits n = digits (n div 10) @ [digit_char (n mod 10)]"
      by (subst digits.simps) simp
    with 1 False show ?thesis by (simp add: digit_char_is_digit)
  qed
qed

lemma digits_nonempty: "digits n \<noteq> []"
  by (subst digits.simps) simp

lemma length_digits_le: "n < 10 ^ p \<Longrightarrow> 0 < p \<Longrightarrow> length (digits n) \<le> p"
proof (induction p arbitrary: n)
  case 0
  then show ?case by simp
next
  case (Suc p)
  show ?case
  proof (cases "n < 10")
    case True
    then have "digits n = [digit_char n]" by (subst digits.simps) simp
    then show ?thesis by simp
  next
    case False
    then have eq: "digits n = digits (n div 10) @ [digit_char (n mod 10)]"
      by (subst digits.simps) simp
    from Suc.prems have lt: "n div 10 < 10 ^ p"
      by (simp add: less_mult_imp_div_less mult.commute)
    have "0 < p"
    proof (rule ccontr)
      assume "\<not> 0 < p"
      then have "p = 0" by simp
      with Suc.prems False show False by simp
    qed
    with lt have "length (digits (n div 10)) \<le> p" by (rule Suc.IH)
    with eq show ?thesis by simp
  qed
qed

lemma format_f_decimals:
  assumes "0 < p"
  shows "\<exists>i f. format_f p x = (if x < 0 then ''-'' else []) @ i @ ''.'' @ f \<and>
           i \<noteq> [] \<and> length f = p \<and> (\<forall>ch \<in> set (i @ f). is_digit ch)"
proof -
  define n where "n = nat (round_half_even (\<bar>x\<bar> * 10 ^ p))"
  define i where "i = digits (n div 10 ^ p)"
  define fd where "fd = digits (n mod 10 ^ p)"
  define f where "f = replicate (p - length fd) (CHR ''0'') @ fd"
  have "length fd \<le> p"
    unfolding fd_def using assms by (intro length_digits_le) simp_all
  then have len: "length f = p" unfolding f_def by simp
  have z: "is_digit (CHR ''0'')" by (simp add: is_digit_def)
  have dig: "\<forall>ch \<in> set (i @ f). is_digit ch"
    unfolding i_def f_def fd_def using digits_are_digits z by auto
  have "format_f p x = (if x < 0 then ''-'' else []) @ i @ ''.'' @ f"
    unfolding format_f_def Let_def i_def f_def fd_def n_def using assms by simp
  moreover have "i \<noteq> []" unfolding i_def by (rule digits_nonempty)
  ultimately show ?thesis using len dig by blast
qed

lemma thickness_text: "pad 1 (format_f 3 0.006) = ''0.006''"
  by (simp add: pad_def format_f_def round_half_even_def digits.simps digit_char_def
      numeral_2_eq_2)

lemma emitted_lines:
  "\<forall>l \<in> set (stdout utp).
     \<exists>m \<in> set DIELECTRIC_LIST. \<exists>c \<in> set CONDUCTOR_LIST. \<exists>t \<in> set INSULATION_THICKNESS_LIST.
       body STRANDING_FACTOR m c t = Inr l"
proof
  fix l
  assume "l \<in> set (stdout utp)"
  then have "l \<in> set (spec_output STRANDING_FACTOR)" by (simp add: utp_eq)
  then obtain m c t where m: "m \<in> set DIELECTRIC_LIST" and c: "c \<in> set CONDUCTOR_LIST"
    and t: "t \<in> set INSULATION_THICKNESS_LIST" and l: "l = spec_line STRANDING_FACTOR m c t"
    unfolding spec_output_def by auto
  from c t have "body STRANDING_FACTOR m c t = Inr l"
    unfolding l by (rule table_body)
  with m c t show "\<exists>m \<in> set DIELECTRIC_LIST. \<exists>c \<in> set CONDUCTOR_LIST.
     \<exists>t \<in> set INSULATION_THICKNESS_LIST. body STRANDING_FACTOR m c t = Inr l"
    by blast
qed

text \<open>
  Claim C8. For every combination of the tables the line that \<^verbatim>\<open>print\<close> writes is, in this
  order: the gauge label, the thickness with 3 decimals and \<^verbatim>\<open>inch thick\<close>, the material
  name, \<^verbatim>\<open>=\<close>, the General Cable value with 2 decimals and \<^verbatim>\<open>pf/ft\<close>, its per-millimeter
  value with 4 decimals and \<^verbatim>\<open>pf/mm\<close>, the marker \<^verbatim>\<open>(General Cable)\<close>, the Howard Johnson
  value with 2 decimals and \<^verbatim>\<open>pf/ft\<close>, its per-millimeter value with 4 decimals and
  \<^verbatim>\<open>pf/mm\<close>, and the marker \<^verbatim>\<open>(Howard Johnson)\<close>. Every line of the output is such a line.
  A value formatted with \<open>p > 0\<close> decimals is a sign, at least one digit, a point and
  exactly \<open>p\<close> digits.
\<close>

theorem C8_line_format:
  "(m \<in> set DIELECTRIC_LIST \<and> c \<in> set CONDUCTOR_LIST \<and> t \<in> set INSULATION_THICKNESS_LIST \<longrightarrow>
     (\<exists>cap cap_mm cap2 cap2_mm.
        line_args STRANDING_FACTOR m c t =
          Inr [PyStr (fst c), PyFloat t, PyStr (fst m),
               PyFloat cap, PyFloat cap_mm, PyFloat cap2, PyFloat cap2_mm] \<and>
        body STRANDING_FACTOR m c t =
          Inr (fst c @ '' '' @ pad 1 (format_f 3 t) @ '' inch thick '' @ fst m @ '' = '' @
               pad 5 (format_f 2 cap) @ '' pf/ft '' @ pad 5 (format_f 4 cap_mm) @ '' pf/mm '' @
               ''(General Cable) '' @
               pad 5 (format_f 2 cap2) @ '' pf/ft '' @ pad 5 (format_f 4 cap2_mm) @ '' pf/mm '' @
               ''(Howard Johnson)''))) \<and>
   (\<forall>l \<in> set (stdout utp).
      \<exists>m \<in> set DIELECTRIC_LIST. \<exists>c \<in> set CONDUCTOR_LIST. \<exists>t \<in> set INSULATION_THICKNESS_LIST.
        body STRANDING_FACTOR m c t = Inr l) \<and>
   (0 < p \<longrightarrow>
     (\<exists>i f. format_f p x = (if x < 0 then ''-'' else []) @ i @ ''.'' @ f \<and>
        i \<noteq> [] \<and> length f = p \<and> (\<forall>ch \<in> set (i @ f). is_digit ch)))"
proof (intro conjI impI)
  assume h: "m \<in> set DIELECTRIC_LIST \<and> c \<in> set CONDUCTOR_LIST \<and>
             t \<in> set INSULATION_THICKNESS_LIST"
  then have D: "0 < snd (snd c)" and t: "0 < t"
    by (simp_all add: diameter_pos thickness_pos)
  show "\<exists>cap cap_mm cap2 cap2_mm.
        line_args STRANDING_FACTOR m c t =
          Inr [PyStr (fst c), PyFloat t, PyStr (fst m),
               PyFloat cap, PyFloat cap_mm, PyFloat cap2, PyFloat cap2_mm] \<and>
        body STRANDING_FACTOR m c t =
          Inr (fst c @ '' '' @ pad 1 (format_f 3 t) @ '' inch thick '' @ fst m @ '' = '' @
               pad 5 (format_f 2 cap) @ '' pf/ft '' @ pad 5 (format_f 4 cap_mm) @ '' pf/mm '' @
               ''(General Cable) '' @
               pad 5 (format_f 2 cap2) @ '' pf/ft '' @ pad 5 (format_f 4 cap2_mm) @ '' pf/mm '' @
               ''(Howard Johnson)'')"
    using line_args_eq [OF sf_range D t, of m]
      body_eq [OF sf_range D t, of m, unfolded spec_line_def]
    by blast
next
  show "\<forall>l \<in> set (stdout utp).
      \<exists>m \<in> set DIELECTRIC_LIST. \<exists>c \<in> set CONDUCTOR_LIST. \<exists>t \<in> set INSULATION_THICKNESS_LIST.
        body STRANDING_FACTOR m c t = Inr l"
    by (rule emitted_lines)
next
  assume "0 < p"
  then show "\<exists>i f. format_f p x = (if x < 0 then ''-'' else []) @ i @ ''.'' @ f \<and>
        i \<noteq> [] \<and> length f = p \<and> (\<forall>ch \<in> set (i @ f). is_digit ch)"
    by (rule format_f_decimals)
qed

text \<open>The first combination of the tables: the fixed text of its line is evaluated.\<close>

theorem C8_line_format_witness:
  "(''ECTFE/Halar'', 2.60) \<in> set DIELECTRIC_LIST \<and>
   (''AWG30'', ''7/38'', 0.012) \<in> set CONDUCTOR_LIST \<and>
   0.006 \<in> set INSULATION_THICKNESS_LIST \<and>
   (\<exists>cap cap_mm cap2 cap2_mm.
      body STRANDING_FACTOR (''ECTFE/Halar'', 2.60) (''AWG30'', ''7/38'', 0.012) 0.006 =
        Inr (''AWG30 0.006 inch thick ECTFE/Halar = '' @
             pad 5 (format_f 2 cap) @ '' pf/ft '' @ pad 5 (format_f 4 cap_mm) @
             '' pf/mm (General Cable) '' @
             pad 5 (format_f 2 cap2) @ '' pf/ft '' @ pad 5 (format_f 4 cap2_mm) @
             '' pf/mm (Howard Johnson)''))"
proof -
  have hyp: "(''ECTFE/Halar'', 2.60) \<in> set DIELECTRIC_LIST \<and>
    (''AWG30'', ''7/38'', 0.012) \<in> set CONDUCTOR_LIST \<and>
    0.006 \<in> set INSULATION_THICKNESS_LIST"
    by (simp add: DIELECTRIC_LIST_def CONDUCTOR_LIST_def INSULATION_THICKNESS_LIST_def)
  from C8_line_format [of "(''ECTFE/Halar'', 2.60)" "(''AWG30'', ''7/38'', 0.012)" "0.006",
      THEN conjunct1, THEN mp, OF hyp]
  obtain cap cap_mm cap2 cap2_mm where
    "body STRANDING_FACTOR (''ECTFE/Halar'', 2.60) (''AWG30'', ''7/38'', 0.012) 0.006 =
          Inr (fst (''AWG30'', ''7/38'', 0.012::real) @ '' '' @ pad 1 (format_f 3 0.006) @
               '' inch thick '' @ fst (''ECTFE/Halar'', 2.60::real) @ '' = '' @
               pad 5 (format_f 2 cap) @ '' pf/ft '' @ pad 5 (format_f 4 cap_mm) @ '' pf/mm '' @
               ''(General Cable) '' @
               pad 5 (format_f 2 cap2) @ '' pf/ft '' @ pad 5 (format_f 4 cap2_mm) @ '' pf/mm '' @
               ''(Howard Johnson)'')"
    by blast
  then have "body STRANDING_FACTOR (''ECTFE/Halar'', 2.60) (''AWG30'', ''7/38'', 0.012) 0.006 =
        Inr (''AWG30 0.006 inch thick ECTFE/Halar = '' @
             pad 5 (format_f 2 cap) @ '' pf/ft '' @ pad 5 (format_f 4 cap_mm) @
             '' pf/mm (General Cable) '' @
             pad 5 (format_f 2 cap2) @ '' pf/ft '' @ pad 5 (format_f 4 cap2_mm) @
             '' pf/mm (Howard Johnson)'')"
    by (simp only: fst_conv thickness_text append.simps append_assoc)
  with hyp show ?thesis by blast
qed

end
